theory Spec2Isabelle
  imports Complex_Main "HOL-Library.AList" "HOL-Library.Sublist"
begin

section \<open>Data model of \<open>BehavioralAuthModel\<close> (model/secureFlow.py)\<close>

text \<open>
  Python values that can occur in a session observation. Python's \<open>int\<close>, \<open>float\<close> and
  \<open>bool\<close> are all read as one numeric constructor over the reals (floating-point rounding,
  infinities and NaN are not modelled; \<open>True\<close> is \<open>Num 1\<close>); a \<open>dict\<close> with string keys is
  a partial map. \<open>Str\<close> and \<open>NoneV\<close> stand for the values that have neither a \<open>.get\<close>
  method nor arithmetic or ordering with a number. Sequences (lists, tuples, arrays) as
  field values are not part of the model.
\<close>

datatype pyval =
    Num real
  | Str string
  | NoneV
  | Dict "string \<Rightarrow> pyval option"

datatype error = AttributeError | TypeError | ValueError | ZeroDivisionError

text \<open>The two reads of \<open>datetime.now()\<close> made by one feature extraction.\<close>

record clock =
  hour :: nat
  weekday :: nat

text \<open>The six statistics stored per feature by \<open>build_user_profile\<close>.\<close>

record stats =
  mean :: real
  std :: real
  min_stat :: real
  max_stat :: real
  percentile_25 :: real
  percentile_75 :: real

text \<open>
  The profile dictionary. \<open>baseline_features\<close> is an insertion-ordered dict, kept as an
  association list with distinct keys.
\<close>

record profile =
  user_id :: string
  baseline_features :: "(string \<times> stats) list"
  behavioral_patterns :: "(string \<times> pyval) list"
  risk_factors :: "string list"

record thresholds =
  low :: real
  medium :: real
  high :: real

text \<open>
  The fitted scikit-learn objects are library values; the model takes what they compute
  as given functions on the feature vector, each of which may raise.
  \<open>random_forest\<close> gives \<open>(predict, predict_proba[1])\<close>, \<open>isolation_forest\<close> gives
  \<open>(predict, decision_function)\<close>, \<open>scaler_main\<close> is \<open>scalers['main'].transform\<close>.
  \<open>None\<close> is a key that is absent from \<open>self.models\<close> or \<open>self.scalers\<close>.
\<close>

record model_state =
  random_forest :: "(pyval list \<Rightarrow> error + real \<times> real) option"
  isolation_forest :: "(pyval list \<Rightarrow> error + int \<times> real) option"
  scaler_main :: "(pyval list \<Rightarrow> error + pyval list) option"
  user_profiles :: "string \<Rightarrow> profile option"
  risk_thresholds :: thresholds

definition BehavioralAuthModel_init :: model_state where
  "BehavioralAuthModel_init =
     \<lparr> random_forest = None, isolation_forest = None, scaler_main = None,
       user_profiles = Map.empty,
       risk_thresholds = \<lparr> low = 0.3, medium = 0.6, high = 0.8 \<rparr> \<rparr>"

section \<open>Exceptions as values\<close>

text \<open>
  A raised exception is \<open>Inl\<close>; \<open>bind_err\<close> sequences two steps, the second of which
  runs only when the first did not raise.
\<close>

definition bind_err :: "error + 'a \<Rightarrow> ('a \<Rightarrow> error + 'b) \<Rightarrow> error + 'b" where
  "bind_err m f = (case m of Inl e \<Rightarrow> Inl e | Inr x \<Rightarrow> f x)"

section \<open>Feature extraction\<close>

text \<open>\<open>d.get(k, default)\<close> on a dict.\<close>

definition dict_get :: "(string \<Rightarrow> pyval option) \<Rightarrow> string \<Rightarrow> pyval \<Rightarrow> pyval" where
  "dict_get d k dflt = (case d k of None \<Rightarrow> dflt | Some v \<Rightarrow> v)"

text \<open>
  Calling \<open>.get\<close> on a value: only a dict has the method, anything else raises
  \<open>AttributeError\<close>.
\<close>

definition as_mapping :: "pyval \<Rightarrow> error + (string \<Rightarrow> pyval option)" where
  "as_mapping v = (case v of Dict d \<Rightarrow> Inr d | _ \<Rightarrow> Inl AttributeError)"

text \<open>\<open>user_data.get(group, {})\<close>, then used as the receiver of \<open>.get\<close>.\<close>

definition signal_group :: "(string \<Rightarrow> pyval option) \<Rightarrow> string \<Rightarrow> error + (string \<Rightarrow> pyval option)" where
  "signal_group user_data k = as_mapping (dict_get user_data k (Dict Map.empty))"

definition extract_features :: "clock \<Rightarrow> pyval \<Rightarrow> error + (string \<times> pyval) list" where
  "extract_features now user_data =
    bind_err (as_mapping user_data) (\<lambda>ud.
    bind_err (signal_group ud ''keystroke_dynamics'') (\<lambda>keystroke_data.
    bind_err (signal_group ud ''navigation_pattern'') (\<lambda>navigation.
    bind_err (signal_group ud ''transaction_data'') (\<lambda>transaction.
    bind_err (signal_group ud ''location_data'') (\<lambda>location.
    bind_err (signal_group ud ''biometric_data'') (\<lambda>biometric.
     Inr [ (''login_frequency'', dict_get ud ''daily_login_count'' (Num 0)),
           (''session_duration'', dict_get ud ''session_time'' (Num 0)),
           (''hour_of_day'', Num (real (hour now))),
           (''day_of_week'', Num (real (weekday now))),
           (''avg_typing_speed'', dict_get keystroke_data ''avg_speed'' (Num 0)),
           (''typing_rhythm_variance'', dict_get keystroke_data ''rhythm_variance'' (Num 0)),
           (''tap_pressure'', dict_get keystroke_data ''avg_pressure'' (Num 0)),
           (''swipe_velocity'', dict_get keystroke_data ''swipe_velocity'' (Num 0)),
           (''typical_screen_sequence'', dict_get navigation ''screen_sequence_score'' (Num 0)),
           (''direct_to_sensitive'', dict_get navigation ''direct_sensitive_access'' (Num 0)),
           (''page_dwell_time'', dict_get navigation ''avg_dwell_time'' (Num 0)),
           (''transaction_amount'', dict_get transaction ''amount'' (Num 0)),
           (''payee_familiarity'', dict_get transaction ''payee_score'' (Num 1)),
           (''transaction_frequency'', dict_get transaction ''frequency'' (Num 0)),
           (''balance_check_frequency'', dict_get transaction ''balance_checks'' (Num 0)),
           (''location_familiarity'', dict_get location ''familiarity_score'' (Num 1)),
           (''wifi_pattern_match'', dict_get location ''wifi_match'' (Num 1)),
           (''bluetooth_devices'', dict_get location ''bluetooth_count'' (Num 0)),
           (''travel_distance'', dict_get location ''travel_distance'' (Num 0)),
           (''tremor_signature'', dict_get biometric ''tremor_match_score'' (Num 1)),
           (''gyroscope_pattern'', dict_get biometric ''gyro_similarity'' (Num 1)),
           (''accelerometer_pattern'', dict_get biometric ''accel_similarity'' (Num 1)),
           (''panic_gesture_triggered'', dict_get ud ''panic_gesture'' (Num 0)),
           (''decoy_interaction_normal'', dict_get ud ''decoy_response'' (Num 1)) ]))))))"

section \<open>Baseline profiles\<close>

text \<open>
  \<open>np.array(values)\<close> followed by \<open>np.mean\<close>: the reduction raises \<open>TypeError\<close> as soon
  as one element is not a number.
\<close>

definition as_number :: "pyval \<Rightarrow> error + real" where
  "as_number v = (case v of Num x \<Rightarrow> Inr x | _ \<Rightarrow> Inl TypeError)"

fun numbers :: "pyval list \<Rightarrow> error + real list" where
  "numbers [] = Inr []"
| "numbers (v # vs) =
     (case as_number v of
        Inl e \<Rightarrow> Inl e
      | Inr x \<Rightarrow> (case numbers vs of Inl e \<Rightarrow> Inl e | Inr xs \<Rightarrow> Inr (x # xs)))"

definition np_mean :: "real list \<Rightarrow> real" where
  "np_mean xs = sum_list xs / real (length xs)"

text \<open>\<open>np.std\<close> is the population standard deviation (\<open>ddof = 0\<close>).\<close>

definition np_std :: "real list \<Rightarrow> real" where
  "np_std xs = sqrt (np_mean (map (\<lambda>x. \<bar>x - np_mean xs\<bar>\<^sup>2) xs))"

text \<open>\<open>np.percentile\<close> with its default linear interpolation, on a non-empty sample.\<close>

definition np_percentile :: "real list \<Rightarrow> real \<Rightarrow> real" where
  "np_percentile xs q =
     (let s = sort xs;
          pos = q / 100 * real (length xs - 1);
          lo = nat \<lfloor>pos\<rfloor>;
          hi = min (lo + 1) (length xs - 1)
      in s ! lo + (pos - real lo) * (s ! hi - s ! lo))"

text \<open>
  The six measures of one feature. An empty sample cannot arise in
  \<open>build_user_profile\<close> (a key exists only once a value was appended); numpy would
  raise \<open>ValueError\<close> at \<open>np.min\<close>.
\<close>

definition summary_statistics :: "pyval list \<Rightarrow> error + stats" where
  "summary_statistics vals =
     bind_err (numbers vals) (\<lambda>xs.
       case xs of
         [] \<Rightarrow> Inl ValueError
       | x # rest \<Rightarrow>
           Inr \<lparr> mean = np_mean xs, std = np_std xs,
                 min_stat = fold min rest x, max_stat = fold max rest x,
                 percentile_25 = np_percentile xs 25,
                 percentile_75 = np_percentile xs 75 \<rparr>)"

text \<open>
  One step of the inner loop of \<open>build_user_profile\<close>: create the list of a new key,
  then append the value.
\<close>

definition append_value :: "(string \<times> pyval list) list \<Rightarrow> string \<times> pyval \<Rightarrow> (string \<times> pyval list) list" where
  "append_value bf kv =
     (case map_of bf (fst kv) of
        None \<Rightarrow> bf @ [(fst kv, [snd kv])]
      | Some vs \<Rightarrow> AList.update (fst kv) (vs @ [snd kv]) bf)"

text \<open>
  The loop over \<open>historical_data\<close>; \<open>now i\<close> is the clock during the extraction of the
  \<open>i\<close>-th session.
\<close>

fun collect_sessions :: "(nat \<Rightarrow> clock) \<Rightarrow> nat \<Rightarrow> pyval list \<Rightarrow> (string \<times> pyval list) list \<Rightarrow> error + (string \<times> pyval list) list" where
  "collect_sessions now i [] bf = Inr bf"
| "collect_sessions now i (session # rest) bf =
     (case extract_features (now i) session of
        Inl e \<Rightarrow> Inl e
      | Inr features \<Rightarrow> collect_sessions now (Suc i) rest (foldl append_value bf features))"

fun compute_measures :: "(string \<times> pyval list) list \<Rightarrow> error + (string \<times> stats) list" where
  "compute_measures [] = Inr []"
| "compute_measures ((key, vals) # rest) =
     (case summary_statistics vals of
        Inl e \<Rightarrow> Inl e
      | Inr s \<Rightarrow> (case compute_measures rest of Inl e \<Rightarrow> Inl e | Inr rest' \<Rightarrow> Inr ((key, s) # rest')))"

text \<open>
  \<open>build_user_profile\<close> returns the profile and stores it under the identity; when an
  exception is raised the assignment to \<open>self.user_profiles\<close> is not reached.
\<close>

definition build_user_profile :: "(nat \<Rightarrow> clock) \<Rightarrow> model_state \<Rightarrow> string \<Rightarrow> pyval list \<Rightarrow> error + profile \<times> model_state" where
  "build_user_profile now self uid historical_data =
     bind_err (collect_sessions now 0 historical_data []) (\<lambda>lists.
     bind_err (compute_measures lists) (\<lambda>bf.
       let p = \<lparr> user_id = uid, baseline_features = bf,
                 behavioral_patterns = [], risk_factors = [] \<rparr>
       in Inr (p, self\<lparr> user_profiles := (user_profiles self)(uid \<mapsto> p) \<rparr>)))"

section \<open>Risk scoring\<close>

text \<open>Python's \<open>/\<close> raises on a zero divisor.\<close>

definition py_div :: "real \<Rightarrow> real \<Rightarrow> error + real" where
  "py_div a b = (if b = 0 then Inl ZeroDivisionError else Inr (a / b))"

text \<open>Lines 178-179: the divisor is the baseline's std floored at \<open>1e-6\<close>.\<close>

definition z_score :: "pyval \<Rightarrow> stats \<Rightarrow> error + real" where
  "z_score v baseline =
     (case v of
        Num x \<Rightarrow> py_div \<bar>x - mean baseline\<bar> (max (std baseline) 0.000001)
      | _ \<Rightarrow> Inl TypeError)"

text \<open>
  The format \<open>:.2f\<close>: two decimals, rounding to nearest with ties to even.
\<close>

definition round_half_even :: "real \<Rightarrow> int" where
  "round_half_even x =
     (let f = \<lfloor>x\<rfloor>; r = x - of_int f
      in if r < 1/2 then f else if 1/2 < r then f + 1 else if even f then f else f + 1)"

definition digit :: "nat \<Rightarrow> char" where
  "digit d = ''0123456789'' ! d"

fun show_nat :: "nat \<Rightarrow> string" where
  "show_nat n = (if n < 10 then [digit n] else show_nat (n div 10) @ [digit (n mod 10)])"

declare show_nat.simps [simp del]

definition format_2f :: "real \<Rightarrow> string" where
  "format_2f x =
     (let n = nat (round_half_even (\<bar>x\<bar> * 100))
      in (if x < 0 then [CHR ''-''] else []) @ show_nat (n div 100) @ [CHR ''.''] @
         [digit (n mod 100 div 10), digit (n mod 10)])"

definition deviation_factor :: "string \<Rightarrow> real \<Rightarrow> string" where
  "deviation_factor feature z = feature @ '': '' @ format_2f z @ '' std devs''"

text \<open>
  Lines 175-182: the loop over \<open>current_features.items()\<close>, with the accumulators
  \<open>risk_factors\<close> and \<open>total_deviation\<close>.
\<close>

fun deviation_loop :: "(string \<times> stats) list \<Rightarrow> (string \<times> pyval) list \<Rightarrow> string list \<times> real \<Rightarrow> error + string list \<times> real" where
  "deviation_loop bf [] acc = Inr acc"
| "deviation_loop bf ((feature, v) # rest) acc =
     (case map_of bf feature of
        None \<Rightarrow> deviation_loop bf rest acc
      | Some baseline \<Rightarrow>
          (case z_score v baseline of
             Inl e \<Rightarrow> Inl e
           | Inr z \<Rightarrow>
               if 2 < z
               then deviation_loop bf rest (fst acc @ [deviation_factor feature z], snd acc + z)
               else deviation_loop bf rest acc))"

text \<open>\<open>current_features.get(k, default)\<close> on the ordered feature dict.\<close>

definition features_get :: "(string \<times> pyval) list \<Rightarrow> string \<Rightarrow> pyval \<Rightarrow> pyval" where
  "features_get fs k dflt = (case map_of fs k of None \<Rightarrow> dflt | Some v \<Rightarrow> v)"

text \<open>\<open>v == r\<close> never raises; \<open>v < r\<close> raises \<open>TypeError\<close> unless \<open>v\<close> is a number.\<close>

definition py_eq_num :: "pyval \<Rightarrow> real \<Rightarrow> bool" where
  "py_eq_num v r = (case v of Num x \<Rightarrow> x = r | _ \<Rightarrow> False)"

definition py_lt_num :: "pyval \<Rightarrow> real \<Rightarrow> error + bool" where
  "py_lt_num v r = (case v of Num x \<Rightarrow> Inr (x < r) | _ \<Rightarrow> Inl TypeError)"

text \<open>One rule of lines 186-200: when triggered, append the factor and add the weight.\<close>

definition boost :: "bool \<Rightarrow> string \<Rightarrow> real \<Rightarrow> string list \<times> real \<Rightarrow> string list \<times> real" where
  "boost triggered factor weight acc =
     (if triggered then (fst acc @ [factor], snd acc + weight) else acc)"

text \<open>
  Lines 171-200: \<open>risk_factors\<close> and \<open>total_deviation\<close> as they stand just before the
  normalisation.
\<close>

definition risk_totals :: "profile \<Rightarrow> (string \<times> pyval) list \<Rightarrow> error + string list \<times> real" where
  "risk_totals p current_features =
     bind_err (deviation_loop (baseline_features p) current_features ([], 0)) (\<lambda>acc0.
     let acc1 = boost (py_eq_num (features_get current_features ''panic_gesture_triggered'' (Num 0)) 1)
                  ''Panic gesture detected'' 5 acc0;
         acc2 = boost (py_eq_num (features_get current_features ''direct_to_sensitive'' (Num 0)) 1)
                  ''Direct access to sensitive area'' 3 acc1
     in bind_err (py_lt_num (features_get current_features ''location_familiarity'' (Num 1)) 0.3) (\<lambda>unfamiliar.
        let acc3 = boost unfamiliar ''Unfamiliar location'' 2 acc2
        in bind_err (py_lt_num (features_get current_features ''tremor_signature'' (Num 1)) 0.7) (\<lambda>mismatch.
           Inr (boost mismatch ''Biometric signature mismatch'' 4 acc3))))"

text \<open>Line 203.\<close>

definition normalize :: "real \<Rightarrow> real" where
  "normalize total_deviation = max (min (total_deviation / 10) 1.0) 0.05"

text \<open>
  What \<open>calculate_risk_score\<close> returns: the bare float of line 166 or the tuple of
  line 205.
\<close>

datatype score_result = Bare real | Tuple real "string list"

definition calculate_risk_score :: "clock \<Rightarrow> model_state \<Rightarrow> string \<Rightarrow> pyval \<Rightarrow> error + score_result" where
  "calculate_risk_score now self uid current_session =
     (case user_profiles self uid of
        None \<Rightarrow> Inr (Bare 0.9)
      | Some p \<Rightarrow>
          bind_err (extract_features now current_session) (\<lambda>current_features.
          bind_err (risk_totals p current_features) (\<lambda>acc.
            Inr (Tuple (normalize (snd acc)) (fst acc)))))"

section \<open>Classification\<close>

record model_prediction =
  prediction :: real
  confidence :: real

text \<open>
  The returned dictionary. Its keys \<open>user_id\<close> and \<open>risk_factors\<close> are also keys of the
  profile dictionary, so the fields carry the prefix \<open>a_\<close> here.
\<close>

record assessment =
  a_user_id :: string
  classification :: string
  action :: string
  risk_score :: real
  a_risk_factors :: "string list"
  model_predictions :: "(string \<times> model_prediction) list"
  timestamp :: string

text \<open>Lines 239-250.\<close>

definition final_classification :: "thresholds \<Rightarrow> real \<Rightarrow> string \<times> string" where
  "final_classification th score =
     (if high th \<le> score then (''BLOCK'', ''Block transaction and lock session'')
      else if medium th \<le> score
        then (''CHALLENGE'', ''Request additional authentication (OTP/Biometric)'')
      else if low th \<le> score then (''MONITOR'', ''Continue with increased monitoring'')
      else (''ALLOW'', ''Continue normally''))"

text \<open>
  Line 236, \<open>risk_score, risk_factors = ...\<close>: unpacking a float raises \<open>TypeError\<close>.
\<close>

definition unpack2 :: "score_result \<Rightarrow> error + real \<times> string list" where
  "unpack2 r = (case r of Bare _ \<Rightarrow> Inl TypeError | Tuple score factors \<Rightarrow> Inr (score, factors))"

text \<open>
  \<open>classify_user\<close>. \<open>now1\<close> is the clock at its own feature extraction, \<open>now2\<close> the
  clock at the extraction inside \<open>calculate_risk_score\<close>, \<open>now_iso\<close> the final
  \<open>datetime.now().isoformat()\<close>.
\<close>

definition classify_user :: "clock \<Rightarrow> clock \<Rightarrow> string \<Rightarrow> model_state \<Rightarrow> string \<Rightarrow> pyval \<Rightarrow> error + assessment" where
  "classify_user now1 now2 now_iso self uid current_session =
     bind_err (extract_features now1 current_session) (\<lambda>features.
     bind_err (case scaler_main self of
                 Some transform \<Rightarrow> transform (map snd features)
               | None \<Rightarrow> Inr (map snd features)) (\<lambda>feature_vector_scaled.
     bind_err (case random_forest self of
                 None \<Rightarrow> Inr []
               | Some rf \<Rightarrow>
                   bind_err (rf feature_vector_scaled) (\<lambda>r.
                     Inr [(''random_forest'', \<lparr> prediction = fst r, confidence = snd r \<rparr>)])) (\<lambda>predictions1.
     bind_err (case isolation_forest self of
                 None \<Rightarrow> Inr predictions1
               | Some iforest \<Rightarrow>
                   bind_err (iforest feature_vector_scaled) (\<lambda>r.
                     Inr (predictions1 @
                       [(''isolation_forest'',
                         \<lparr> prediction = (if fst r = 1 then 1 else 0),
                           confidence = max (min (0.5 + snd r / 2) 1.0) 0.0 \<rparr>)]))) (\<lambda>predictions.
     bind_err (calculate_risk_score now2 self uid current_session) (\<lambda>result.
     bind_err (unpack2 result) (\<lambda>sf.
       Inr \<lparr> a_user_id = uid,
             classification = fst (final_classification (risk_thresholds self) (fst sf)),
             action = snd (final_classification (risk_thresholds self) (fst sf)),
             risk_score = fst sf,
             a_risk_factors = snd sf,
             model_predictions = predictions,
             timestamp = now_iso \<rparr>))))))"

section \<open>Predicates and tables used to state the properties\<close>

subsection \<open>Well-formed observations and documented defaults\<close>

definition is_mapping :: "pyval \<Rightarrow> bool" where
  "is_mapping v = (case v of Dict _ \<Rightarrow> True | _ \<Rightarrow> False)"

definition signal_groups :: "string list" where
  "signal_groups = [''keystroke_dynamics'', ''navigation_pattern'', ''transaction_data'',
                    ''location_data'', ''biometric_data'']"

definition group_ok :: "(string \<Rightarrow> pyval option) \<Rightarrow> string \<Rightarrow> bool" where
  "group_ok d g = (case d g of None \<Rightarrow> True | Some v \<Rightarrow> is_mapping v)"

text \<open>
  A well-formed observation is a mapping in which every signal group that is present is
  itself a mapping. Nothing is asked of the fields.
\<close>

definition well_formed_observation :: "pyval \<Rightarrow> bool" where
  "well_formed_observation obs =
     (case obs of Dict d \<Rightarrow> list_all (group_ok d) signal_groups | _ \<Rightarrow> False)"

text \<open>The signal group (if any) and the field each observation-derived feature is read from.\<close>

definition feature_source :: "(string \<times> string option \<times> string) list" where
  "feature_source =
     [ (''login_frequency'', None, ''daily_login_count''),
       (''session_duration'', None, ''session_time''),
       (''avg_typing_speed'', Some ''keystroke_dynamics'', ''avg_speed''),
       (''typing_rhythm_variance'', Some ''keystroke_dynamics'', ''rhythm_variance''),
       (''tap_pressure'', Some ''keystroke_dynamics'', ''avg_pressure''),
       (''swipe_velocity'', Some ''keystroke_dynamics'', ''swipe_velocity''),
       (''typical_screen_sequence'', Some ''navigation_pattern'', ''screen_sequence_score''),
       (''direct_to_sensitive'', Some ''navigation_pattern'', ''direct_sensitive_access''),
       (''page_dwell_time'', Some ''navigation_pattern'', ''avg_dwell_time''),
       (''transaction_amount'', Some ''transaction_data'', ''amount''),
       (''payee_familiarity'', Some ''transaction_data'', ''payee_score''),
       (''transaction_frequency'', Some ''transaction_data'', ''frequency''),
       (''balance_check_frequency'', Some ''transaction_data'', ''balance_checks''),
       (''location_familiarity'', Some ''location_data'', ''familiarity_score''),
       (''wifi_pattern_match'', Some ''location_data'', ''wifi_match''),
       (''bluetooth_devices'', Some ''location_data'', ''bluetooth_count''),
       (''travel_distance'', Some ''location_data'', ''travel_distance''),
       (''tremor_signature'', Some ''biometric_data'', ''tremor_match_score''),
       (''gyroscope_pattern'', Some ''biometric_data'', ''gyro_similarity''),
       (''accelerometer_pattern'', Some ''biometric_data'', ''accel_similarity''),
       (''panic_gesture_triggered'', None, ''panic_gesture''),
       (''decoy_interaction_normal'', None, ''decoy_response'') ]"

text \<open>
  The defaults as the specification words them: location familiarity, wifi match, the
  three biometric match scores, payee familiarity and decoy response default to 1,
  everything else to 0.
\<close>

definition documented_default :: "string \<Rightarrow> pyval" where
  "documented_default feature =
     (if feature \<in> set [''location_familiarity'', ''wifi_pattern_match'', ''tremor_signature'',
                         ''gyroscope_pattern'', ''accelerometer_pattern'', ''payee_familiarity'',
                         ''decoy_interaction_normal'']
      then Num 1 else Num 0)"

definition field_present :: "(string \<Rightarrow> pyval option) \<Rightarrow> string option \<times> string \<Rightarrow> bool" where
  "field_present d src =
     (case fst src of
        None \<Rightarrow> d (snd src) \<noteq> None
      | Some g \<Rightarrow> (case d g of Some (Dict gd) \<Rightarrow> gd (snd src) \<noteq> None | _ \<Rightarrow> False))"

definition group_of :: "(string \<Rightarrow> pyval option) \<Rightarrow> string \<Rightarrow> (string \<Rightarrow> pyval option)" where
  "group_of d g = (case d g of Some (Dict gd) \<Rightarrow> gd | _ \<Rightarrow> Map.empty)"

text \<open>The feature names in the order \<open>extract_features\<close> inserts them.\<close>

definition feature_order :: "string list" where
  "feature_order =
     [''login_frequency'', ''session_duration'', ''hour_of_day'', ''day_of_week'',
      ''avg_typing_speed'', ''typing_rhythm_variance'', ''tap_pressure'', ''swipe_velocity'',
      ''typical_screen_sequence'', ''direct_to_sensitive'', ''page_dwell_time'',
      ''transaction_amount'', ''payee_familiarity'', ''transaction_frequency'',
      ''balance_check_frequency'', ''location_familiarity'', ''wifi_pattern_match'',
      ''bluetooth_devices'', ''travel_distance'', ''tremor_signature'', ''gyroscope_pattern'',
      ''accelerometer_pattern'', ''panic_gesture_triggered'', ''decoy_interaction_normal'']"

subsection \<open>What one feature and the fixed rules contribute\<close>

definition is_num :: "pyval \<Rightarrow> bool" where
  "is_num v = (case v of Num _ \<Rightarrow> True | _ \<Rightarrow> False)"

text \<open>An entry the deviation loop can process: not in the baseline, or a number.\<close>

definition scorable :: "(string \<times> stats) list \<Rightarrow> string \<times> pyval \<Rightarrow> bool" where
  "scorable bf kv = (map_of bf (fst kv) = None \<or> is_num (snd kv))"

text \<open>The z-score a feature adds to the total: counted only above 2.\<close>

definition deviation_of :: "(string \<times> stats) list \<Rightarrow> string \<times> pyval \<Rightarrow> real" where
  "deviation_of bf kv =
     (case map_of bf (fst kv) of
        None \<Rightarrow> 0
      | Some b \<Rightarrow> (case z_score (snd kv) b of Inr z \<Rightarrow> (if 2 < z then z else 0) | Inl _ \<Rightarrow> 0))"

definition factor_of :: "(string \<times> stats) list \<Rightarrow> string \<times> pyval \<Rightarrow> string list" where
  "factor_of bf kv =
     (case map_of bf (fst kv) of
        None \<Rightarrow> []
      | Some b \<Rightarrow>
          (case z_score (snd kv) b of
             Inr z \<Rightarrow> (if 2 < z then [deviation_factor (fst kv) z] else [])
           | Inl _ \<Rightarrow> []))"

definition panic_rule :: "(string \<times> pyval) list \<Rightarrow> bool" where
  "panic_rule fs = py_eq_num (features_get fs ''panic_gesture_triggered'' (Num 0)) 1"

definition direct_rule :: "(string \<times> pyval) list \<Rightarrow> bool" where
  "direct_rule fs = py_eq_num (features_get fs ''direct_to_sensitive'' (Num 0)) 1"

definition location_rule :: "(string \<times> pyval) list \<Rightarrow> bool" where
  "location_rule fs = (py_lt_num (features_get fs ''location_familiarity'' (Num 1)) 0.3 = Inr True)"

definition tremor_rule :: "(string \<times> pyval) list \<Rightarrow> bool" where
  "tremor_rule fs = (py_lt_num (features_get fs ''tremor_signature'' (Num 1)) 0.7 = Inr True)"

definition fixed_rule_factors :: "string list" where
  "fixed_rule_factors =
     [''Panic gesture detected'', ''Direct access to sensitive area'', ''Unfamiliar location'',
      ''Biometric signature mismatch'']"

definition rule_factors :: "(string \<times> pyval) list \<Rightarrow> string list" where
  "rule_factors fs =
     (if panic_rule fs then [''Panic gesture detected''] else []) @
     (if direct_rule fs then [''Direct access to sensitive area''] else []) @
     (if location_rule fs then [''Unfamiliar location''] else []) @
     (if tremor_rule fs then [''Biometric signature mismatch''] else [])"

definition rule_total :: "(string \<times> pyval) list \<Rightarrow> real" where
  "rule_total fs =
     (if panic_rule fs then 5 else 0) + (if direct_rule fs then 3 else 0) +
     (if location_rule fs then 2 else 0) + (if tremor_rule fs then 4 else 0)"

text \<open>Every extracted value is a number.\<close>

definition numeric_features :: "(string \<times> pyval) list \<Rightarrow> bool" where
  "numeric_features fs = list_all (\<lambda>kv. is_num (snd kv)) fs"

text \<open>The two features that the rules compare with \<open><\<close> are numbers.\<close>

definition comparable :: "(string \<times> pyval) list \<Rightarrow> bool" where
  "comparable fs =
     (is_num (features_get fs ''location_familiarity'' (Num 1)) \<and>
      is_num (features_get fs ''tremor_signature'' (Num 1)))"

text \<open>The features whose raw value is read by one of the four fixed rules.\<close>

definition rule_features :: "string list" where
  "rule_features =
     [''panic_gesture_triggered'', ''direct_to_sensitive'', ''location_familiarity'',
      ''tremor_signature'']"

text \<open>
  The feature vector with the value of one feature replaced and every other entry kept.
\<close>

definition set_feature :: "string \<Rightarrow> pyval \<Rightarrow> (string \<times> pyval) list \<Rightarrow> (string \<times> pyval) list" where
  "set_feature k v fs = map (\<lambda>kv. if fst kv = k then (k, v) else kv) fs"

text \<open>
  What the panic flag's own entry adds in the deviation loop when the flag is 1.
\<close>

definition panic_deviation :: "profile \<Rightarrow> real" where
  "panic_deviation p = deviation_of (baseline_features p) (''panic_gesture_triggered'', Num 1)"

subsection \<open>Concrete sessions and states\<close>

definition noon :: clock where
  "noon = \<lparr> hour = 12, weekday = 0 \<rparr>"

definition at_noon :: "nat \<Rightarrow> clock" where
  "at_noon i = noon"

definition stamp :: string where
  "stamp = ''2024-01-01T12:00:00''"

text \<open>The feature vector of a session without any field, extracted at noon on a Monday.\<close>

definition default_features :: "(string \<times> pyval) list" where
  "default_features =
     [ (''login_frequency'', Num 0), (''session_duration'', Num 0),
       (''hour_of_day'', Num 12), (''day_of_week'', Num 0),
       (''avg_typing_speed'', Num 0), (''typing_rhythm_variance'', Num 0),
       (''tap_pressure'', Num 0), (''swipe_velocity'', Num 0),
       (''typical_screen_sequence'', Num 0), (''direct_to_sensitive'', Num 0),
       (''page_dwell_time'', Num 0), (''transaction_amount'', Num 0),
       (''payee_familiarity'', Num 1), (''transaction_frequency'', Num 0),
       (''balance_check_frequency'', Num 0), (''location_familiarity'', Num 1),
       (''wifi_pattern_match'', Num 1), (''bluetooth_devices'', Num 0),
       (''travel_distance'', Num 0), (''tremor_signature'', Num 1),
       (''gyroscope_pattern'', Num 1), (''accelerometer_pattern'', Num 1),
       (''panic_gesture_triggered'', Num 0), (''decoy_interaction_normal'', Num 1) ]"

text \<open>A session that reports three logins and nothing else.\<close>

definition busy_session :: pyval where
  "busy_session = Dict [''daily_login_count'' \<mapsto> Num 3]"

text \<open>A session with no field at all, the same with the panic flag set.\<close>

definition empty_session :: pyval where
  "empty_session = Dict Map.empty"

definition panic_session :: pyval where
  "panic_session = Dict [''panic_gesture'' \<mapsto> Num 1]"

definition constant_stats :: "real \<Rightarrow> stats" where
  "constant_stats v =
     \<lparr> mean = v, std = 0, min_stat = v, max_stat = v, percentile_25 = v, percentile_75 = v \<rparr>"

text \<open>The profile that \<open>build_user_profile\<close> computes from the single empty session at noon.\<close>

definition quiet_profile :: profile where
  "quiet_profile =
     \<lparr> user_id = ''user_001'',
       baseline_features =
         [ (''login_frequency'', constant_stats 0), (''session_duration'', constant_stats 0),
           (''hour_of_day'', constant_stats 12), (''day_of_week'', constant_stats 0),
           (''avg_typing_speed'', constant_stats 0),
           (''typing_rhythm_variance'', constant_stats 0),
           (''tap_pressure'', constant_stats 0), (''swipe_velocity'', constant_stats 0),
           (''typical_screen_sequence'', constant_stats 0),
           (''direct_to_sensitive'', constant_stats 0), (''page_dwell_time'', constant_stats 0),
           (''transaction_amount'', constant_stats 0), (''payee_familiarity'', constant_stats 1),
           (''transaction_frequency'', constant_stats 0),
           (''balance_check_frequency'', constant_stats 0),
           (''location_familiarity'', constant_stats 1),
           (''wifi_pattern_match'', constant_stats 1), (''bluetooth_devices'', constant_stats 0),
           (''travel_distance'', constant_stats 0), (''tremor_signature'', constant_stats 1),
           (''gyroscope_pattern'', constant_stats 1),
           (''accelerometer_pattern'', constant_stats 1),
           (''panic_gesture_triggered'', constant_stats 0),
           (''decoy_interaction_normal'', constant_stats 1) ],
       behavioral_patterns = [], risk_factors = [] \<rparr>"

definition quiet_state :: model_state where
  "quiet_state = BehavioralAuthModel_init \<lparr> user_profiles := [''user_001'' \<mapsto> quiet_profile] \<rparr>"

text \<open>The profile that \<open>build_user_profile\<close> computes from no session at all.\<close>

definition blank_profile :: profile where
  "blank_profile =
     \<lparr> user_id = ''user_001'', baseline_features = [], behavioral_patterns = [],
       risk_factors = [] \<rparr>"

definition blank_state :: model_state where
  "blank_state = BehavioralAuthModel_init \<lparr> user_profiles := [''user_001'' \<mapsto> blank_profile] \<rparr>"

text \<open>The panic flag set in an unfamiliar location.\<close>

definition panic_abroad_session :: pyval where
  "panic_abroad_session =
     Dict [''panic_gesture'' \<mapsto> Num 1,
           ''location_data'' \<mapsto> Dict [''familiarity_score'' \<mapsto> Num 0.1]]"

text \<open>Sessions that differ in the tremor match score only.\<close>

definition tremor_session :: "real \<Rightarrow> pyval" where
  "tremor_session x = Dict [''biometric_data'' \<mapsto> Dict [''tremor_match_score'' \<mapsto> Num x]]"

text \<open>
  The profile that \<open>build_user_profile\<close> computes from two sessions at noon with tremor
  match scores 0.5 and 0.9.
\<close>

definition tremor_profile :: profile where
  "tremor_profile =
     quiet_profile \<lparr> baseline_features :=
       AList.update ''tremor_signature''
         \<lparr> mean = 0.7, std = 0.2, min_stat = 0.5, max_stat = 0.9,
           percentile_25 = 0.6, percentile_75 = 0.8 \<rparr>
         (baseline_features quiet_profile) \<rparr>"

definition tremor_state :: model_state where
  "tremor_state = BehavioralAuthModel_init \<lparr> user_profiles := [''user_001'' \<mapsto> tremor_profile] \<rparr>"

section \<open>Sequencing\<close>

lemma bind_err_Inr [simp]: "bind_err (Inr x) f = f x"
  by (simp add: bind_err_def)

lemma bind_err_Inl [simp]: "bind_err (Inl e) f = Inl e"
  by (simp add: bind_err_def)

section \<open>Feature extraction: totality and defaults\<close>

lemma signal_group_ok: "group_ok d g \<Longrightarrow> signal_group d g = Inr (group_of d g)"
  by (auto simp: group_ok_def signal_group_def group_of_def dict_get_def as_mapping_def is_mapping_def
      split: option.splits pyval.splits)

lemma signal_group_bad: "\<not> group_ok d g \<Longrightarrow> signal_group d g = Inl AttributeError"
  by (auto simp: group_ok_def signal_group_def dict_get_def as_mapping_def is_mapping_def
      split: option.splits pyval.splits)

lemma extract_features_well_formed:
  assumes "well_formed_observation (Dict d)"
  shows "extract_features now (Dict d) =
     Inr [ (''login_frequency'', dict_get d ''daily_login_count'' (Num 0)),
           (''session_duration'', dict_get d ''session_time'' (Num 0)),
           (''hour_of_day'', Num (real (hour now))),
           (''day_of_week'', Num (real (weekday now))),
           (''avg_typing_speed'', dict_get (group_of d ''keystroke_dynamics'') ''avg_speed'' (Num 0)),
           (''typing_rhythm_variance'', dict_get (group_of d ''keystroke_dynamics'') ''rhythm_variance'' (Num 0)),
           (''tap_pressure'', dict_get (group_of d ''keystroke_dynamics'') ''avg_pressure'' (Num 0)),
           (''swipe_velocity'', dict_get (group_of d ''keystroke_dynamics'') ''swipe_velocity'' (Num 0)),
           (''typical_screen_sequence'', dict_get (group_of d ''navigation_pattern'') ''screen_sequence_score'' (Num 0)),
           (''direct_to_sensitive'', dict_get (group_of d ''navigation_pattern'') ''direct_sensitive_access'' (Num 0)),
           (''page_dwell_time'', dict_get (group_of d ''navigation_pattern'') ''avg_dwell_time'' (Num 0)),
           (''transaction_amount'', dict_get (group_of d ''transaction_data'') ''amount'' (Num 0)),
           (''payee_familiarity'', dict_get (group_of d ''transaction_data'') ''payee_score'' (Num 1)),
           (''transaction_frequency'', dict_get (group_of d ''transaction_data'') ''frequency'' (Num 0)),
           (''balance_check_frequency'', dict_get (group_of d ''transaction_data'') ''balance_checks'' (Num 0)),
           (''location_familiarity'', dict_get (group_of d ''location_data'') ''familiarity_score'' (Num 1)),
           (''wifi_pattern_match'', dict_get (group_of d ''location_data'') ''wifi_match'' (Num 1)),
           (''bluetooth_devices'', dict_get (group_of d ''location_data'') ''bluetooth_count'' (Num 0)),
           (''travel_distance'', dict_get (group_of d ''location_data'') ''travel_distance'' (Num 0)),
           (''tremor_signature'', dict_get (group_of d ''biometric_data'') ''tremor_match_score'' (Num 1)),
           (''gyroscope_pattern'', dict_get (group_of d ''biometric_data'') ''gyro_similarity'' (Num 1)),
           (''accelerometer_pattern'', dict_get (group_of d ''biometric_data'') ''accel_similarity'' (Num 1)),
           (''panic_gesture_triggered'', dict_get d ''panic_gesture'' (Num 0)),
           (''decoy_interaction_normal'', dict_get d ''decoy_response'' (Num 1)) ]"
proof -
  from assms have g: "group_ok d ''keystroke_dynamics''" "group_ok d ''navigation_pattern''"
    "group_ok d ''transaction_data''" "group_ok d ''location_data''" "group_ok d ''biometric_data''"
    by (simp_all add: well_formed_observation_def signal_groups_def)
  show ?thesis
    by (simp add: extract_features_def as_mapping_def signal_group_ok [OF g(1)] signal_group_ok [OF g(2)]
        signal_group_ok [OF g(3)] signal_group_ok [OF g(4)] signal_group_ok [OF g(5)])
qed

lemma extract_features_ill_formed:
  assumes "\<not> well_formed_observation obs"
  shows "extract_features now obs = Inl AttributeError"
proof (cases obs)
  case (Dict d)
  with assms have "\<not> list_all (group_ok d) signal_groups"
    by (simp add: well_formed_observation_def)
  then consider "\<not> group_ok d ''keystroke_dynamics''" | "\<not> group_ok d ''navigation_pattern''"
    | "\<not> group_ok d ''transaction_data''" | "\<not> group_ok d ''location_data''" | "\<not> group_ok d ''biometric_data''"
    by (auto simp: signal_groups_def)
  then show ?thesis
  proof cases
    case 1 then show ?thesis using Dict
      by (simp add: extract_features_def as_mapping_def signal_group_bad)
  next
    case 2 then show ?thesis using Dict
      by (cases "group_ok d ''keystroke_dynamics''")
         (simp_all add: extract_features_def as_mapping_def signal_group_bad signal_group_ok)
  next
    case 3 then show ?thesis using Dict
      by (cases "group_ok d ''keystroke_dynamics''"; cases "group_ok d ''navigation_pattern''")
         (simp_all add: extract_features_def as_mapping_def signal_group_bad signal_group_ok)
  next
    case 4 then show ?thesis using Dict
      by (cases "group_ok d ''keystroke_dynamics''"; cases "group_ok d ''navigation_pattern''";
          cases "group_ok d ''transaction_data''")
         (simp_all add: extract_features_def as_mapping_def signal_group_bad signal_group_ok)
  next
    case 5 then show ?thesis using Dict
      by (cases "group_ok d ''keystroke_dynamics''"; cases "group_ok d ''navigation_pattern''";
          cases "group_ok d ''transaction_data''"; cases "group_ok d ''location_data''")
         (simp_all add: extract_features_def as_mapping_def signal_group_bad signal_group_ok)
  qed
qed (simp_all add: extract_features_def as_mapping_def)

lemma absent_field_default:
  "\<not> field_present d (Some g, f) \<Longrightarrow> dict_get (group_of d g) f dflt = dflt"
  "\<not> field_present d (None, f) \<Longrightarrow> dict_get d f dflt = dflt"
  by (auto simp: field_present_def group_of_def dict_get_def split: option.splits pyval.splits)

lemma extract_features_returns_iff:
  "(\<exists>fs. extract_features now obs = Inr fs) \<longleftrightarrow> well_formed_observation obs"
proof (cases "well_formed_observation obs")
  case True
  then obtain d where "obs = Dict d"
    by (cases obs) (simp_all add: well_formed_observation_def)
  with True show ?thesis using extract_features_well_formed [of d now] by simp
next
  case False
  then show ?thesis using extract_features_ill_formed [of obs now] by simp
qed

lemma extract_features_raises:
  assumes "extract_features now obs = Inl e"
  shows "e = AttributeError \<and> \<not> well_formed_observation obs"
proof -
  from assms have "\<not> well_formed_observation obs"
    using extract_features_returns_iff [of now obs] by auto
  then show ?thesis using assms extract_features_ill_formed [of obs now] by simp
qed

lemma extract_features_order:
  assumes "extract_features now obs = Inr fs"
  shows "map fst fs = feature_order"
proof -
  from assms have "well_formed_observation obs"
    using extract_features_returns_iff [of now obs] by blast
  then obtain d where "obs = Dict d" and "well_formed_observation (Dict d)"
    by (cases obs) (simp_all add: well_formed_observation_def)
  with assms show ?thesis
    using extract_features_well_formed [of d now] by (auto simp: feature_order_def)
qed

lemma distinct_feature_order: "distinct feature_order"
  by (simp add: feature_order_def)

lemma extract_features_distinct:
  assumes "extract_features now obs = Inr fs"
  shows "distinct (map fst fs)"
  using extract_features_order [OF assms] distinct_feature_order by simp

lemma absent_field_default_all:
  "\<not> field_present d src \<Longrightarrow> src = (Some g, f) \<Longrightarrow> \<forall>dflt. dict_get (group_of d g) f dflt = dflt"
  "\<not> field_present d src \<Longrightarrow> src = (None, f) \<Longrightarrow> \<forall>dflt. dict_get d f dflt = dflt"
  by (simp_all add: absent_field_default)

lemma extract_features_absent_field:
  assumes wf: "well_formed_observation (Dict d)"
    and mem: "(feature, src) \<in> set feature_source"
    and np: "\<not> field_present d src"
  shows "\<exists>fs. extract_features now (Dict d) = Inr fs \<and>
              map_of fs feature = Some (documented_default feature)"
proof -
  obtain fs where fs: "extract_features now (Dict d) = Inr fs"
    using extract_features_well_formed [OF wf] by blast
  note entries = fs [symmetric, unfolded extract_features_well_formed [OF wf] sum.inject]
  have "(feature, documented_default feature) \<in> set fs"
    using mem np unfolding feature_source_def
    apply (simp only: list.set insert_iff empty_iff prod.inject simp_thms)
    apply (elim disjE conjE;
        (frule (1) absent_field_default_all(1) | frule (1) absent_field_default_all(2));
        insert entries; simp add: documented_default_def)
    done
  with extract_features_distinct [OF fs] have "map_of fs feature = Some (documented_default feature)"
    by (rule map_of_is_SomeI)
  with fs show ?thesis by blast
qed

text \<open>
  C8. \<open>extract_features\<close> returns a feature vector exactly for the well-formed
  observations (a mapping whose present signal groups are mappings); on every other
  input it raises \<open>AttributeError\<close>. It never raises for a missing field or a missing
  signal group: a feature whose field or group is absent has its documented default
  (1 for location familiarity, wifi match, the biometric match scores, payee familiarity
  and decoy response, 0 otherwise).
\<close>

theorem extract_features_defaults:
  "((\<exists>fs. extract_features now obs = Inr fs) \<longleftrightarrow> well_formed_observation obs) \<and>
   ((extract_features now obs = Inl AttributeError) \<longleftrightarrow> (\<not> well_formed_observation obs)) \<and>
   (\<forall>d feature src. obs = Dict d \<and> well_formed_observation obs \<and>
        (feature, src) \<in> set feature_source \<and> \<not> field_present d src \<longrightarrow>
        (\<exists>fs. extract_features now obs = Inr fs \<and> map_of fs feature = Some (documented_default feature)))"
proof -
  have a: "(\<exists>fs. extract_features now obs = Inr fs) \<longleftrightarrow> well_formed_observation obs"
    by (rule extract_features_returns_iff)
  have b: "(extract_features now obs = Inl AttributeError) \<longleftrightarrow> (\<not> well_formed_observation obs)"
    using extract_features_raises [of now obs AttributeError] extract_features_ill_formed [of obs now]
    by blast
  have c: "\<forall>d feature src. obs = Dict d \<and> well_formed_observation obs \<and>
        (feature, src) \<in> set feature_source \<and> \<not> field_present d src \<longrightarrow>
        (\<exists>fs. extract_features now obs = Inr fs \<and> map_of fs feature = Some (documented_default feature))"
  proof (intro allI impI)
    fix d feature src
    assume h: "obs = Dict d \<and> well_formed_observation obs \<and>
        (feature, src) \<in> set feature_source \<and> \<not> field_present d src"
    then have "well_formed_observation (Dict d)" "(feature, src) \<in> set feature_source" "\<not> field_present d src"
      by blast+
    from extract_features_absent_field [OF this, of now] h
    show "\<exists>fs. extract_features now obs = Inr fs \<and> map_of fs feature = Some (documented_default feature)"
      by simp
  qed
  from a b c show ?thesis by (intro conjI)
qed

theorem extract_features_defaults_witness:
  "well_formed_observation empty_session \<and>
   (''panic_gesture_triggered'', None, ''panic_gesture'') \<in> set feature_source \<and>
   \<not> field_present Map.empty (None, ''panic_gesture'') \<and>
   documented_default ''panic_gesture_triggered'' = Num 0 \<and>
   extract_features noon empty_session =
     Inr [ (''login_frequency'', Num 0), (''session_duration'', Num 0),
           (''hour_of_day'', Num 12), (''day_of_week'', Num 0),
           (''avg_typing_speed'', Num 0), (''typing_rhythm_variance'', Num 0),
           (''tap_pressure'', Num 0), (''swipe_velocity'', Num 0),
           (''typical_screen_sequence'', Num 0), (''direct_to_sensitive'', Num 0),
           (''page_dwell_time'', Num 0), (''transaction_amount'', Num 0),
           (''payee_familiarity'', Num 1), (''transaction_frequency'', Num 0),
           (''balance_check_frequency'', Num 0), (''location_familiarity'', Num 1),
           (''wifi_pattern_match'', Num 1), (''bluetooth_devices'', Num 0),
           (''travel_distance'', Num 0), (''tremor_signature'', Num 1),
           (''gyroscope_pattern'', Num 1), (''accelerometer_pattern'', Num 1),
           (''panic_gesture_triggered'', Num 0), (''decoy_interaction_normal'', Num 1) ] \<and>
   \<not> well_formed_observation NoneV \<and>
   extract_features noon NoneV = Inl AttributeError"
  using extract_features_defaults [of noon empty_session] extract_features_defaults [of noon NoneV]
  by (simp add: empty_session_def noon_def well_formed_observation_def signal_groups_def
      group_ok_def feature_source_def field_present_def documented_default_def
      extract_features_def as_mapping_def signal_group_def dict_get_def)

section \<open>Risk scoring in closed form\<close>

lemma floor_positive: "max s (0.000001::real) \<noteq> 0"
  by (simp add: max_def)

lemma z_score_Num: "z_score (Num x) b = Inr (\<bar>x - mean b\<bar> / max (std b) 0.000001)"
  using floor_positive [of "std b"] by (simp add: z_score_def py_div_def)

lemma z_score_not_Num: "\<not> is_num v \<Longrightarrow> z_score v b = Inl TypeError"
  by (cases v) (simp_all add: z_score_def is_num_def)

lemma deviation_loop_scorable:
  "list_all (scorable bf) fs \<Longrightarrow>
   deviation_loop bf fs acc =
     Inr (fst acc @ concat (map (factor_of bf) fs), snd acc + sum_list (map (deviation_of bf) fs))"
proof (induction fs arbitrary: acc)
  case Nil
  then show ?case by simp
next
  case (Cons kv fs)
  obtain k v where kv: "kv = (k, v)" by (cases kv)
  from Cons.prems have rest: "list_all (scorable bf) fs" and here: "scorable bf (k, v)"
    by (simp_all add: kv)
  show ?case
  proof (cases "map_of bf k")
    case None
    then show ?thesis
      using Cons.IH [OF rest] by (simp add: kv factor_of_def deviation_of_def)
  next
    case (Some b)
    with here obtain x where v: "v = Num x"
      by (cases v) (simp_all add: scorable_def is_num_def)
    show ?thesis
      using Cons.IH [OF rest] Some
      by (simp add: kv v z_score_Num factor_of_def deviation_of_def)
  qed
qed

lemma deviation_loop_unscorable:
  "\<not> list_all (scorable bf) fs \<Longrightarrow> deviation_loop bf fs acc = Inl TypeError"
proof (induction fs arbitrary: acc)
  case Nil
  then show ?case by simp
next
  case (Cons kv fs)
  obtain k v where kv: "kv = (k, v)" by (cases kv)
  show ?case
  proof (cases "scorable bf (k, v)")
    case True
    with Cons.prems have rest: "\<not> list_all (scorable bf) fs" by (simp add: kv)
    show ?thesis
    proof (cases "map_of bf k")
      case None
      then show ?thesis using Cons.IH [OF rest] by (simp add: kv)
    next
      case (Some b)
      with True obtain x where v: "v = Num x"
        by (cases v) (simp_all add: scorable_def is_num_def)
      show ?thesis using Cons.IH [OF rest] Some by (simp add: kv v z_score_Num)
    qed
  next
    case False
    then obtain b where "map_of bf k = Some b" "\<not> is_num v"
      by (auto simp: scorable_def)
    then show ?thesis by (simp add: kv z_score_not_Num)
  qed
qed

lemma is_num_iff: "is_num v \<longleftrightarrow> (\<exists>x. v = Num x)"
  by (cases v) (simp_all add: is_num_def)

lemma py_lt_num_Num: "py_lt_num (Num x) r = Inr (x < r)"
  by (simp add: py_lt_num_def)

lemma py_lt_num_not_num: "\<not> is_num v \<Longrightarrow> py_lt_num v r = Inl TypeError"
  by (cases v) (simp_all add: py_lt_num_def is_num_def)

lemma boosts_closed_form:
  "boost m ''Biometric signature mismatch'' 4
     (boost u ''Unfamiliar location'' 2
       (boost d ''Direct access to sensitive area'' 3
         (boost c ''Panic gesture detected'' 5 acc))) =
   (fst acc @ (if c then [''Panic gesture detected''] else []) @
      (if d then [''Direct access to sensitive area''] else []) @
      (if u then [''Unfamiliar location''] else []) @
      (if m then [''Biometric signature mismatch''] else []),
    snd acc + ((if c then 5 else 0) + (if d then 3 else 0) + (if u then 2 else 0) + (if m then 4 else 0)))"
  by (simp add: boost_def)

lemma risk_totals_closed_form:
  "risk_totals p fs =
     (if list_all (scorable (baseline_features p)) fs \<and> comparable fs
      then Inr (concat (map (factor_of (baseline_features p)) fs) @ rule_factors fs,
                sum_list (map (deviation_of (baseline_features p)) fs) + rule_total fs)
      else Inl TypeError)"
proof (cases "list_all (scorable (baseline_features p)) fs")
  case False
  then show ?thesis
    by (simp add: risk_totals_def deviation_loop_unscorable)
next
  case True
  note loop = deviation_loop_scorable [OF True, of "([], 0)"]
  show ?thesis
  proof (cases "is_num (features_get fs ''location_familiarity'' (Num 1))")
    case False
    then show ?thesis
      by (simp add: risk_totals_def loop comparable_def py_lt_num_not_num Let_def)
  next
    case loc: True
    then obtain lx where lx: "features_get fs ''location_familiarity'' (Num 1) = Num lx"
      by (auto simp: is_num_iff)
    show ?thesis
    proof (cases "is_num (features_get fs ''tremor_signature'' (Num 1))")
      case False
      then show ?thesis
        by (simp add: risk_totals_def loop comparable_def py_lt_num_not_num lx py_lt_num_Num Let_def)
    next
      case trem: True
      then obtain tx where tx: "features_get fs ''tremor_signature'' (Num 1) = Num tx"
        by (auto simp: is_num_iff)
      have "risk_totals p fs =
        Inr (boost (tremor_rule fs) ''Biometric signature mismatch'' 4
              (boost (location_rule fs) ''Unfamiliar location'' 2
                (boost (direct_rule fs) ''Direct access to sensitive area'' 3
                  (boost (panic_rule fs) ''Panic gesture detected'' 5
                    (concat (map (factor_of (baseline_features p)) fs),
                     sum_list (map (deviation_of (baseline_features p)) fs))))))"
        unfolding risk_totals_def loop
        by (simp add: lx tx py_lt_num_Num Let_def
            panic_rule_def direct_rule_def location_rule_def tremor_rule_def)
      then show ?thesis
        unfolding boosts_closed_form
        by (simp add: True loc trem comparable_def rule_factors_def rule_total_def)
    qed
  qed
qed

lemma normalize_bounds: "0.05 \<le> normalize t \<and> normalize t \<le> 1"
  by (simp add: normalize_def)

lemma normalize_mono: "s \<le> t \<Longrightarrow> normalize s \<le> normalize t"
  by (simp add: normalize_def max_def min_def)

lemma calculate_risk_score_known:
  assumes "user_profiles self uid = Some p"
  shows "calculate_risk_score now self uid obs =
     (case extract_features now obs of
        Inl e \<Rightarrow> Inl e
      | Inr fs \<Rightarrow>
          if list_all (scorable (baseline_features p)) fs \<and> comparable fs
          then Inr (Tuple (normalize (sum_list (map (deviation_of (baseline_features p)) fs) + rule_total fs))
                          (concat (map (factor_of (baseline_features p)) fs) @ rule_factors fs))
          else Inl TypeError)"
  using assms by (simp add: calculate_risk_score_def risk_totals_closed_form split: sum.splits)

section \<open>Evaluation on the concrete sessions\<close>

lemmas extract_eval = extract_features_def as_mapping_def signal_group_def dict_get_def
lemmas totals_eval = risk_totals_def features_get_def py_eq_num_def
  py_lt_num_def boost_def z_score_def py_div_def deviation_factor_def
  format_2f_def round_half_even_def show_nat.simps digit_def Let_def
lemmas build_eval = build_user_profile_def summary_statistics_def
  as_number_def np_mean_def np_std_def np_percentile_def at_noon_def Let_def

lemma extract_empty_session: "extract_features noon empty_session = Inr default_features"
  by (simp add: extract_eval empty_session_def noon_def default_features_def)

lemma extract_panic_session:
  "extract_features noon panic_session =
     Inr (set_feature ''panic_gesture_triggered'' (Num 1) default_features)"
  by (simp add: extract_eval panic_session_def noon_def default_features_def set_feature_def)

lemma extract_busy_session:
  "extract_features noon busy_session =
     Inr (set_feature ''login_frequency'' (Num 3) default_features)"
  by (simp add: extract_eval busy_session_def noon_def default_features_def set_feature_def)

lemma extract_panic_abroad_session:
  "extract_features noon panic_abroad_session =
     Inr (set_feature ''location_familiarity'' (Num 0.1)
           (set_feature ''panic_gesture_triggered'' (Num 1) default_features))"
  by (simp add: extract_eval panic_abroad_session_def noon_def default_features_def set_feature_def)

lemma extract_tremor_session:
  "extract_features noon (tremor_session x) =
     Inr (set_feature ''tremor_signature'' (Num x) default_features)"
  by (simp add: extract_eval tremor_session_def noon_def default_features_def set_feature_def)

lemma append_value_other:
  assumes "fst e \<noteq> fst kv"
  shows "append_value (e # acc) kv = e # append_value acc kv"
  using assms by (cases e) (auto simp: append_value_def split: option.splits)

lemma foldl_append_value_Cons:
  "fst e \<notin> fst ` set fs \<Longrightarrow> foldl append_value (e # acc) fs = e # foldl append_value acc fs"
proof (induction fs arbitrary: acc)
  case Nil
  then show ?case by simp
next
  case (Cons kv fs)
  then have "fst e \<noteq> fst kv" and "fst e \<notin> fst ` set fs" by auto
  then show ?case using Cons.IH [of "append_value acc kv"] by (simp add: append_value_other)
qed

lemma foldl_append_value_first:
  "distinct (map fst fs) \<Longrightarrow> foldl append_value [] fs = map (\<lambda>kv. (fst kv, [snd kv])) fs"
proof (induction fs)
  case Nil
  then show ?case by simp
next
  case (Cons kv fs)
  then have fresh: "fst kv \<notin> fst ` set fs" and rest: "distinct (map fst fs)" by auto
  have "foldl append_value [] (kv # fs) = foldl append_value [(fst kv, [snd kv])] fs"
    by (simp add: append_value_def)
  also have "\<dots> = (fst kv, [snd kv]) # foldl append_value [] fs"
    using fresh by (simp add: foldl_append_value_Cons)
  finally show ?case using Cons.IH [OF rest] by simp
qed

lemma foldl_append_value_next:
  "distinct (map fst fs) \<Longrightarrow> map fst acc = map fst fs \<Longrightarrow>
   foldl append_value acc fs = map (\<lambda>(e, kv). (fst e, snd e @ [snd kv])) (zip acc fs)"
proof (induction fs arbitrary: acc)
  case Nil
  then show ?case by simp
next
  case (Cons kv fs)
  from Cons.prems(2) obtain e acc' where acc: "acc = e # acc'" and k: "fst e = fst kv"
    and keys: "map fst acc' = map fst fs"
    by (cases acc) auto
  from Cons.prems(1) have fresh: "fst kv \<notin> fst ` set fs" and rest: "distinct (map fst fs)" by auto
  have "append_value acc kv = (fst e, snd e @ [snd kv]) # acc'"
    using k by (cases e) (simp add: acc append_value_def)
  then have "foldl append_value acc (kv # fs) = foldl append_value ((fst e, snd e @ [snd kv]) # acc') fs"
    by simp
  also have "\<dots> = (fst e, snd e @ [snd kv]) # foldl append_value acc' fs"
    using fresh k by (simp add: foldl_append_value_Cons)
  finally show ?case using Cons.IH [OF rest keys] by (simp add: acc)
qed

lemma foldl_append_value_twice:
  assumes "distinct (map fst fs1)" and "map fst fs2 = map fst fs1"
  shows "foldl append_value (foldl append_value [] fs1) fs2 =
           map (\<lambda>(a, b). (fst a, [snd a, snd b])) (zip fs1 fs2)"
proof -
  have d2: "distinct (map fst fs2)" using assms by simp
  have keys: "map fst (map (\<lambda>kv. (fst kv, [snd kv])) fs1) = map fst fs2"
    using assms(2) by (simp add: comp_def)
  have "foldl append_value (foldl append_value [] fs1) fs2 =
      map (\<lambda>(e, kv). (fst e, snd e @ [snd kv])) (zip (map (\<lambda>kv. (fst kv, [snd kv])) fs1) fs2)"
    unfolding foldl_append_value_first [OF assms(1)]
    by (rule foldl_append_value_next [OF d2 keys])
  also have "\<dots> = map (\<lambda>(a, b). (fst a, [snd a, snd b])) (zip fs1 fs2)"
    by (simp add: zip_map1 case_prod_unfold)
  finally show ?thesis .
qed

lemma default_keys: "map fst default_features = feature_order"
  by (simp add: default_features_def feature_order_def)

lemma set_feature_keys: "map fst (set_feature k v fs) = map fst fs"
  by (induction fs) (simp_all add: set_feature_def)

lemma build_quiet_profile:
  "build_user_profile at_noon BehavioralAuthModel_init ''user_001'' [empty_session] =
     Inr (quiet_profile, quiet_state)"
  by (simp add: build_user_profile_def at_noon_def extract_empty_session
      foldl_append_value_first default_keys distinct_feature_order)
     (simp add: build_eval default_features_def quiet_profile_def
      quiet_state_def constant_stats_def BehavioralAuthModel_init_def)

lemma build_tremor_profile:
  "build_user_profile at_noon BehavioralAuthModel_init ''user_001''
     [tremor_session 0.5, tremor_session 0.9] = Inr (tremor_profile, tremor_state)"
  by (simp add: build_user_profile_def at_noon_def extract_tremor_session
      foldl_append_value_twice set_feature_keys default_keys distinct_feature_order)
     (simp add: build_eval default_features_def set_feature_def
      quiet_profile_def tremor_profile_def tremor_state_def constant_stats_def
      BehavioralAuthModel_init_def)

lemma quiet_baseline:
  "map_of (baseline_features quiet_profile) ''login_frequency'' = Some (constant_stats 0)"
  "map_of (baseline_features quiet_profile) ''session_duration'' = Some (constant_stats 0)"
  "map_of (baseline_features quiet_profile) ''hour_of_day'' = Some (constant_stats 12)"
  "map_of (baseline_features quiet_profile) ''day_of_week'' = Some (constant_stats 0)"
  "map_of (baseline_features quiet_profile) ''avg_typing_speed'' = Some (constant_stats 0)"
  "map_of (baseline_features quiet_profile) ''typing_rhythm_variance'' = Some (constant_stats 0)"
  "map_of (baseline_features quiet_profile) ''tap_pressure'' = Some (constant_stats 0)"
  "map_of (baseline_features quiet_profile) ''swipe_velocity'' = Some (constant_stats 0)"
  "map_of (baseline_features quiet_profile) ''typical_screen_sequence'' = Some (constant_stats 0)"
  "map_of (baseline_features quiet_profile) ''direct_to_sensitive'' = Some (constant_stats 0)"
  "map_of (baseline_features quiet_profile) ''page_dwell_time'' = Some (constant_stats 0)"
  "map_of (baseline_features quiet_profile) ''transaction_amount'' = Some (constant_stats 0)"
  "map_of (baseline_features quiet_profile) ''payee_familiarity'' = Some (constant_stats 1)"
  "map_of (baseline_features quiet_profile) ''transaction_frequency'' = Some (constant_stats 0)"
  "map_of (baseline_features quiet_profile) ''balance_check_frequency'' = Some (constant_stats 0)"
  "map_of (baseline_features quiet_profile) ''location_familiarity'' = Some (constant_stats 1)"
  "map_of (baseline_features quiet_profile) ''wifi_pattern_match'' = Some (constant_stats 1)"
  "map_of (baseline_features quiet_profile) ''bluetooth_devices'' = Some (constant_stats 0)"
  "map_of (baseline_features quiet_profile) ''travel_distance'' = Some (constant_stats 0)"
  "map_of (baseline_features quiet_profile) ''tremor_signature'' = Some (constant_stats 1)"
  "map_of (baseline_features quiet_profile) ''gyroscope_pattern'' = Some (constant_stats 1)"
  "map_of (baseline_features quiet_profile) ''accelerometer_pattern'' = Some (constant_stats 1)"
  "map_of (baseline_features quiet_profile) ''panic_gesture_triggered'' = Some (constant_stats 0)"
  "map_of (baseline_features quiet_profile) ''decoy_interaction_normal'' = Some (constant_stats 1)"
  by (simp_all add: quiet_profile_def)

lemma tremor_baseline:
  "map_of (baseline_features tremor_profile) k =
     (if k = ''tremor_signature''
      then Some \<lparr> mean = 0.7, std = 0.2, min_stat = 0.5, max_stat = 0.9,
                  percentile_25 = 0.6, percentile_75 = 0.8 \<rparr>
      else map_of (baseline_features quiet_profile) k)"
  by (simp add: tremor_profile_def update_conv')

lemma totals_quiet_default: "risk_totals quiet_profile default_features = Inr ([], 0)"
  by (simp add: totals_eval quiet_baseline constant_stats_def default_features_def)

lemma totals_quiet_panic:
  "risk_totals quiet_profile (set_feature ''panic_gesture_triggered'' (Num 1) default_features) =
     Inr ([''panic_gesture_triggered: 1000000.00 std devs'', ''Panic gesture detected''], 1000005)"
  by (simp add: totals_eval quiet_baseline constant_stats_def default_features_def
      set_feature_def)

lemma totals_quiet_busy:
  "risk_totals quiet_profile (set_feature ''login_frequency'' (Num 3) default_features) =
     Inr ([''login_frequency: 3000000.00 std devs''], 3000000)"
  by (simp add: totals_eval quiet_baseline constant_stats_def default_features_def
      set_feature_def)

lemma totals_quiet_panic_abroad:
  "risk_totals quiet_profile
     (set_feature ''location_familiarity'' (Num 0.1)
       (set_feature ''panic_gesture_triggered'' (Num 1) default_features)) =
     Inr ([''location_familiarity: 900000.00 std devs'',
           ''panic_gesture_triggered: 1000000.00 std devs'',
           ''Panic gesture detected'', ''Unfamiliar location''], 1900007)"
  by (simp add: totals_eval quiet_baseline constant_stats_def default_features_def
      set_feature_def)

lemma totals_tremor_near:
  "risk_totals tremor_profile (set_feature ''tremor_signature'' (Num 0.65) default_features) =
     Inr ([''Biometric signature mismatch''], 4)"
  by (simp add: totals_eval tremor_baseline quiet_baseline constant_stats_def
      default_features_def set_feature_def)

lemma totals_tremor_far:
  "risk_totals tremor_profile (set_feature ''tremor_signature'' (Num 0.9) default_features) =
     Inr ([], 0)"
  by (simp add: totals_eval tremor_baseline quiet_baseline constant_stats_def
      default_features_def set_feature_def)

lemma totals_tremor_low:
  "risk_totals tremor_profile (set_feature ''tremor_signature'' (Num 0.5) default_features) =
     Inr ([''Biometric signature mismatch''], 4)"
  by (simp add: totals_eval tremor_baseline quiet_baseline constant_stats_def
      default_features_def set_feature_def)

lemma totals_blank_default: "risk_totals blank_profile default_features = Inr ([], 0)"
  by (simp add: totals_eval blank_profile_def default_features_def)

lemma totals_blank_panic:
  "risk_totals blank_profile (set_feature ''panic_gesture_triggered'' (Num 1) default_features) =
     Inr ([''Panic gesture detected''], 5)"
  by (simp add: totals_eval blank_profile_def default_features_def set_feature_def)

lemma known_quiet: "user_profiles quiet_state ''user_001'' = Some quiet_profile"
  by (simp add: quiet_state_def)

lemma known_tremor: "user_profiles tremor_state ''user_001'' = Some tremor_profile"
  by (simp add: tremor_state_def)

lemma known_blank: "user_profiles blank_state ''user_001'' = Some blank_profile"
  by (simp add: blank_state_def)

lemma blank_state_models:
  "scaler_main blank_state = None" "random_forest blank_state = None"
  "isolation_forest blank_state = None"
  "risk_thresholds blank_state = \<lparr> low = 0.3, medium = 0.6, high = 0.8 \<rparr>"
  by (simp_all add: blank_state_def BehavioralAuthModel_init_def)

lemma score_quiet_empty:
  "calculate_risk_score noon quiet_state ''user_001'' empty_session = Inr (Tuple 0.05 [])"
  by (simp add: calculate_risk_score_def known_quiet extract_empty_session totals_quiet_default
      normalize_def)

lemma score_quiet_panic:
  "calculate_risk_score noon quiet_state ''user_001'' panic_session =
     Inr (Tuple 1 [''panic_gesture_triggered: 1000000.00 std devs'', ''Panic gesture detected''])"
  by (simp add: calculate_risk_score_def known_quiet extract_panic_session totals_quiet_panic
      normalize_def)

lemma score_quiet_busy:
  "calculate_risk_score noon quiet_state ''user_001'' busy_session =
     Inr (Tuple 1 [''login_frequency: 3000000.00 std devs''])"
  by (simp add: calculate_risk_score_def known_quiet extract_busy_session totals_quiet_busy
      normalize_def)

lemma score_quiet_panic_abroad:
  "calculate_risk_score noon quiet_state ''user_001'' panic_abroad_session =
     Inr (Tuple 1 [''location_familiarity: 900000.00 std devs'',
                   ''panic_gesture_triggered: 1000000.00 std devs'',
                   ''Panic gesture detected'', ''Unfamiliar location''])"
  by (simp add: calculate_risk_score_def known_quiet extract_panic_abroad_session
      totals_quiet_panic_abroad normalize_def)

lemma score_tremor_near:
  "calculate_risk_score noon tremor_state ''user_001'' (tremor_session 0.65) =
     Inr (Tuple 0.4 [''Biometric signature mismatch''])"
  using extract_tremor_session [of "0.65"] totals_tremor_near known_tremor
  by (simp add: calculate_risk_score_def normalize_def)

lemma score_tremor_far:
  "calculate_risk_score noon tremor_state ''user_001'' (tremor_session 0.9) =
     Inr (Tuple 0.05 [])"
  using extract_tremor_session [of "0.9"] totals_tremor_far known_tremor
  by (simp add: calculate_risk_score_def normalize_def)

lemma score_tremor_low:
  "calculate_risk_score noon tremor_state ''user_001'' (tremor_session 0.5) =
     Inr (Tuple 0.4 [''Biometric signature mismatch''])"
  using extract_tremor_session [of "0.5"] totals_tremor_low known_tremor
  by (simp add: calculate_risk_score_def normalize_def)

lemma score_blank_panic:
  "calculate_risk_score noon blank_state ''user_001'' panic_session =
     Inr (Tuple 0.5 [''Panic gesture detected''])"
  by (simp add: calculate_risk_score_def known_blank extract_panic_session totals_blank_panic
      normalize_def)

lemma classify_blank_panic:
  "classify_user noon noon stamp blank_state ''user_001'' panic_session =
     Inr \<lparr> a_user_id = ''user_001'', classification = ''MONITOR'',
           action = ''Continue with increased monitoring'', risk_score = 0.5,
           a_risk_factors = [''Panic gesture detected''], model_predictions = [],
           timestamp = stamp \<rparr>"
  using score_blank_panic blank_state_models
  by (simp add: classify_user_def unpack2_def final_classification_def extract_panic_session)

section \<open>Unknown identities\<close>

lemma calculate_risk_score_unknown:
  "user_profiles self uid = None \<Longrightarrow> calculate_risk_score now self uid obs = Inr (Bare 0.9)"
  by (simp add: calculate_risk_score_def)

text \<open>
  C1. The specification has \<open>calculate_risk_score\<close> answer an unknown identity with the
  score 0.9 together with an empty factor list. Line 166 returns the bare float instead,
  while line 205 returns a pair and line 236 unpacks a pair: on a fresh model, the
  identity \<open>never-seen-id\<close> and the empty session the result is the bare 0.9, it is not the
  pair of 0.9 and the empty list, and \<open>classify_user\<close> raises \<open>TypeError\<close>.
\<close>

theorem unknown_identity_bare_score:
  "calculate_risk_score noon BehavioralAuthModel_init ''never-seen-id'' empty_session = Inr (Bare 0.9) \<and>
   calculate_risk_score noon BehavioralAuthModel_init ''never-seen-id'' empty_session \<noteq> Inr (Tuple 0.9 []) \<and>
   classify_user noon noon stamp BehavioralAuthModel_init ''never-seen-id'' empty_session = Inl TypeError"
  by (simp add: classify_user_def unpack2_def calculate_risk_score_def BehavioralAuthModel_init_def
      extract_eval empty_session_def)

lemma bind_err_eq_Inr: "bind_err m f = Inr y \<longleftrightarrow> (\<exists>x. m = Inr x \<and> f x = Inr y)"
  by (cases m) simp_all

lemma unpack2_eq_Inr: "unpack2 r = Inr sf \<longleftrightarrow> r = Tuple (fst sf) (snd sf)"
  by (cases r; cases sf) (auto simp: unpack2_def)

lemma classify_user_returns:
  assumes "classify_user now1 now2 ts self uid obs = Inr a"
  shows "\<exists>factors. calculate_risk_score now2 self uid obs = Inr (Tuple (risk_score a) factors) \<and>
           a_risk_factors a = factors \<and>
           classification a = fst (final_classification (risk_thresholds self) (risk_score a)) \<and>
           action a = snd (final_classification (risk_thresholds self) (risk_score a))"
  using assms unfolding classify_user_def bind_err_eq_Inr unpack2_eq_Inr
  by auto

text \<open>
  C10. \<open>calculate_risk_score\<close> has two result shapes. For an identity without a stored
  profile it returns the bare number 0.9, and then \<open>classify_user\<close>, which unpacks the
  result into two values, returns no assessment whatever the clocks, models and session
  are. For an identity with a stored profile every returned result is a pair of a score
  and a factor list.
\<close>

theorem result_shapes:
  "(user_profiles self uid = None \<longrightarrow>
      calculate_risk_score now self uid obs = Inr (Bare 0.9) \<and>
      (\<forall>a. classify_user now1 now ts self uid obs \<noteq> Inr a)) \<and>
   (\<forall>p r. user_profiles self uid = Some p \<and> calculate_risk_score now self uid obs = Inr r \<longrightarrow>
      (\<exists>score factors. r = Tuple score factors))"
proof (intro conjI impI allI)
  assume u: "user_profiles self uid = None"
  show "calculate_risk_score now self uid obs = Inr (Bare 0.9)"
    by (rule calculate_risk_score_unknown [OF u])
  fix a
  show "classify_user now1 now ts self uid obs \<noteq> Inr a"
  proof
    assume "classify_user now1 now ts self uid obs = Inr a"
    from classify_user_returns [OF this] obtain factors
      where "calculate_risk_score now self uid obs = Inr (Tuple (risk_score a) factors)"
      by blast
    with calculate_risk_score_unknown [OF u, of now obs] show False by simp
  qed
next
  fix p r
  assume "user_profiles self uid = Some p \<and> calculate_risk_score now self uid obs = Inr r"
  then show "\<exists>score factors. r = Tuple score factors"
    by (auto simp: calculate_risk_score_known split: sum.splits if_splits)
qed


theorem result_shapes_witness:
  "user_profiles BehavioralAuthModel_init ''never-seen-id'' = None \<and>
   calculate_risk_score noon BehavioralAuthModel_init ''never-seen-id'' empty_session = Inr (Bare 0.9) \<and>
   classify_user noon noon stamp BehavioralAuthModel_init ''never-seen-id'' empty_session = Inl TypeError \<and>
   user_profiles quiet_state ''user_001'' = Some quiet_profile \<and>
   calculate_risk_score noon quiet_state ''user_001'' panic_session =
     Inr (Tuple 1 [''panic_gesture_triggered: 1000000.00 std devs'', ''Panic gesture detected''])"
  using result_shapes [where self = BehavioralAuthModel_init and uid = "''never-seen-id''"
      and now = noon and obs = empty_session and ?now1.0 = noon and ts = stamp]
    result_shapes [where self = quiet_state and uid = "''user_001''" and now = noon
      and obs = panic_session and ?now1.0 = noon and ts = stamp]
    score_quiet_panic known_quiet
  by (simp add: classify_user_def unpack2_def calculate_risk_score_def
      BehavioralAuthModel_init_def extract_eval empty_session_def)

section \<open>Classification by thresholds\<close>

text \<open>
  C3. With the thresholds low = 0.3, medium = 0.6, high = 0.8 of \<open>__init__\<close>, an
  assessment returned by \<open>classify_user\<close> carries the score of \<open>calculate_risk_score\<close> and
  the classification found top-down with \<open>>=\<close>: BLOCK from 0.8, else CHALLENGE from 0.6,
  else MONITOR from 0.3, else ALLOW. In particular 0.05 gives ALLOW, 0.3 MONITOR,
  0.6 CHALLENGE, 0.8 and 0.95 BLOCK.
\<close>

theorem classification_thresholds:
  "(\<forall>a. classify_user now1 now2 ts self uid obs = Inr a \<and>
        risk_thresholds self = \<lparr> low = 0.3, medium = 0.6, high = 0.8 \<rparr> \<longrightarrow>
      (\<exists>factors. calculate_risk_score now2 self uid obs = Inr (Tuple (risk_score a) factors)) \<and>
      classification a =
        (if 0.8 \<le> risk_score a then ''BLOCK''
         else if 0.6 \<le> risk_score a then ''CHALLENGE''
         else if 0.3 \<le> risk_score a then ''MONITOR''
         else ''ALLOW'')) \<and>
   risk_thresholds BehavioralAuthModel_init = \<lparr> low = 0.3, medium = 0.6, high = 0.8 \<rparr> \<and>
   fst (final_classification (risk_thresholds BehavioralAuthModel_init) 0.05) = ''ALLOW'' \<and>
   fst (final_classification (risk_thresholds BehavioralAuthModel_init) 0.3) = ''MONITOR'' \<and>
   fst (final_classification (risk_thresholds BehavioralAuthModel_init) 0.6) = ''CHALLENGE'' \<and>
   fst (final_classification (risk_thresholds BehavioralAuthModel_init) 0.8) = ''BLOCK'' \<and>
   fst (final_classification (risk_thresholds BehavioralAuthModel_init) 0.95) = ''BLOCK''"
proof -
  have general: "\<forall>a. classify_user now1 now2 ts self uid obs = Inr a \<and>
        risk_thresholds self = \<lparr> low = 0.3, medium = 0.6, high = 0.8 \<rparr> \<longrightarrow>
      (\<exists>factors. calculate_risk_score now2 self uid obs = Inr (Tuple (risk_score a) factors)) \<and>
      classification a =
        (if 0.8 \<le> risk_score a then ''BLOCK''
         else if 0.6 \<le> risk_score a then ''CHALLENGE''
         else if 0.3 \<le> risk_score a then ''MONITOR''
         else ''ALLOW'')"
  proof (intro allI impI)
    fix a
    assume h: "classify_user now1 now2 ts self uid obs = Inr a \<and>
        risk_thresholds self = \<lparr> low = 0.3, medium = 0.6, high = 0.8 \<rparr>"
    then have c: "classify_user now1 now2 ts self uid obs = Inr a"
      and th: "risk_thresholds self = \<lparr> low = 0.3, medium = 0.6, high = 0.8 \<rparr>"
      by simp_all
    from classify_user_returns [OF c] obtain factors where
      f: "calculate_risk_score now2 self uid obs = Inr (Tuple (risk_score a) factors)"
      and cl: "classification a = fst (final_classification (risk_thresholds self) (risk_score a))"
      by blast
    have "classification a =
        (if 0.8 \<le> risk_score a then ''BLOCK''
         else if 0.6 \<le> risk_score a then ''CHALLENGE''
         else if 0.3 \<le> risk_score a then ''MONITOR''
         else ''ALLOW'')"
      unfolding cl th by (simp add: final_classification_def)
    with f show "(\<exists>factors. calculate_risk_score now2 self uid obs = Inr (Tuple (risk_score a) factors)) \<and>
      classification a =
        (if 0.8 \<le> risk_score a then ''BLOCK''
         else if 0.6 \<le> risk_score a then ''CHALLENGE''
         else if 0.3 \<le> risk_score a then ''MONITOR''
         else ''ALLOW'')"
      by blast
  qed
  have points: "risk_thresholds BehavioralAuthModel_init = \<lparr> low = 0.3, medium = 0.6, high = 0.8 \<rparr>"
    "fst (final_classification (risk_thresholds BehavioralAuthModel_init) 0.05) = ''ALLOW''"
    "fst (final_classification (risk_thresholds BehavioralAuthModel_init) 0.3) = ''MONITOR''"
    "fst (final_classification (risk_thresholds BehavioralAuthModel_init) 0.6) = ''CHALLENGE''"
    "fst (final_classification (risk_thresholds BehavioralAuthModel_init) 0.8) = ''BLOCK''"
    "fst (final_classification (risk_thresholds BehavioralAuthModel_init) 0.95) = ''BLOCK''"
    by (simp_all add: BehavioralAuthModel_init_def final_classification_def)
  from general points show ?thesis by (intro conjI)
qed

theorem classification_thresholds_witness:
  "classify_user noon noon stamp blank_state ''user_001'' panic_session =
     Inr \<lparr> a_user_id = ''user_001'', classification = ''MONITOR'',
           action = ''Continue with increased monitoring'', risk_score = 0.5,
           a_risk_factors = [''Panic gesture detected''], model_predictions = [],
           timestamp = stamp \<rparr> \<and>
   risk_thresholds blank_state = \<lparr> low = 0.3, medium = 0.6, high = 0.8 \<rparr> \<and>
   calculate_risk_score noon blank_state ''user_001'' panic_session =
     Inr (Tuple 0.5 [''Panic gesture detected''])"
  using classification_thresholds [where ?now1.0 = noon and ?now2.0 = noon and ts = stamp
      and self = blank_state and uid = "''user_001''" and obs = panic_session]
    classify_blank_panic score_blank_panic
  by (simp add: blank_state_def BehavioralAuthModel_init_def)

section \<open>Profiles from no history\<close>

text \<open>
  C4, as stated, fails: \<open>build_user_profile\<close> called with zero historical observations
  raises nothing. On a fresh model it returns the profile without baseline features and
  stores it.
\<close>

theorem empty_history_counterexample:
  "build_user_profile at_noon BehavioralAuthModel_init ''user_001'' [] =
     Inr (blank_profile, blank_state)"
  by (simp add: build_user_profile_def blank_profile_def blank_state_def
      BehavioralAuthModel_init_def Let_def)

text \<open>
  C4, amended. For every model state, identity and clock, \<open>build_user_profile\<close> with zero
  historical observations signals no error: it returns a profile with no baseline
  feature and stores it under the identity.
\<close>

theorem empty_history_profile:
  "build_user_profile now self uid [] =
     Inr (\<lparr> user_id = uid, baseline_features = [], behavioral_patterns = [], risk_factors = [] \<rparr>,
          self \<lparr> user_profiles := (user_profiles self)(uid \<mapsto>
            \<lparr> user_id = uid, baseline_features = [], behavioral_patterns = [],
              risk_factors = [] \<rparr>) \<rparr>)"
  by (simp add: build_user_profile_def Let_def)

section \<open>Bounds and totality of the score\<close>

lemma numeric_features_scorable:
  "numeric_features fs \<Longrightarrow> list_all (scorable bf) fs"
  by (induction fs) (simp_all add: numeric_features_def scorable_def)

lemma numeric_features_get:
  assumes "numeric_features fs" and "is_num dflt"
  shows "is_num (features_get fs k dflt)"
proof (cases "map_of fs k")
  case None
  then show ?thesis using assms(2) by (simp add: features_get_def)
next
  case (Some v)
  then have "(k, v) \<in> set fs" by (rule map_of_SomeD)
  with assms(1) have "is_num v"
    by (auto simp: numeric_features_def list_all_iff)
  with Some show ?thesis by (simp add: features_get_def)
qed

lemma numeric_features_comparable:
  assumes "numeric_features fs"
  shows "comparable fs"
proof -
  have "is_num (Num 1)" by (simp add: is_num_def)
  with assms show ?thesis by (simp add: comparable_def numeric_features_get)
qed

text \<open>
  C2. The normalisation maps every total deviation, 0 and 1000000 included, into
  [0.05, 1]. Hence for an identity with a stored profile every score that
  \<open>calculate_risk_score\<close> returns lies in [0.05, 1]; and it does return a score whenever
  the extracted features are all numbers.
\<close>

theorem risk_score_bounds:
  "(\<forall>t. 0.05 \<le> normalize t \<and> normalize t \<le> 1) \<and>
   normalize 0 = 0.05 \<and> normalize 1000000 = 1 \<and>
   (\<forall>p r. user_profiles self uid = Some p \<and> calculate_risk_score now self uid obs = Inr r \<longrightarrow>
      (\<exists>score factors. r = Tuple score factors \<and> 0.05 \<le> score \<and> score \<le> 1)) \<and>
   (\<forall>p fs. user_profiles self uid = Some p \<and> extract_features now obs = Inr fs \<and>
        numeric_features fs \<longrightarrow>
      (\<exists>score factors. calculate_risk_score now self uid obs = Inr (Tuple score factors)))"
proof -
  have a: "\<forall>t. 0.05 \<le> normalize t \<and> normalize t \<le> 1"
    using normalize_bounds by blast
  have b: "normalize 0 = 0.05" "normalize 1000000 = 1"
    by (simp_all add: normalize_def)
  have c: "\<forall>p r. user_profiles self uid = Some p \<and> calculate_risk_score now self uid obs = Inr r \<longrightarrow>
      (\<exists>score factors. r = Tuple score factors \<and> 0.05 \<le> score \<and> score \<le> 1)"
    using normalize_bounds
    by (auto simp: calculate_risk_score_known split: sum.splits if_splits)
  have d: "\<forall>p fs. user_profiles self uid = Some p \<and> extract_features now obs = Inr fs \<and>
        numeric_features fs \<longrightarrow>
      (\<exists>score factors. calculate_risk_score now self uid obs = Inr (Tuple score factors))"
    by (simp add: calculate_risk_score_known numeric_features_scorable numeric_features_comparable)
  from a b c d show ?thesis by (intro conjI)
qed


theorem risk_score_bounds_witness:
  "user_profiles quiet_state ''user_001'' = Some quiet_profile \<and>
   extract_features noon empty_session = Inr default_features \<and>
   numeric_features default_features \<and>
   calculate_risk_score noon quiet_state ''user_001'' empty_session = Inr (Tuple 0.05 []) \<and>
   calculate_risk_score noon quiet_state ''user_001'' panic_session =
     Inr (Tuple 1 [''panic_gesture_triggered: 1000000.00 std devs'', ''Panic gesture detected''])"
  using risk_score_bounds [where self = quiet_state and uid = "''user_001''" and now = noon
      and obs = empty_session]
    risk_score_bounds [where self = quiet_state and uid = "''user_001''" and now = noon
      and obs = panic_session]
    score_quiet_empty score_quiet_panic known_quiet extract_empty_session
  by (simp add: numeric_features_def is_num_def default_features_def)

section \<open>The floored divisor\<close>

lemma numbers_replicate: "numbers (replicate n (Num v)) = Inr (replicate n v)"
  by (induction n) (simp_all add: as_number_def)

lemma np_mean_replicate: "np_mean (replicate (Suc n) v) = v"
proof -
  have "sum_list (replicate (Suc n) v) = real (Suc n) * v"
    by (simp only: sum_list_replicate)
  then show ?thesis by (simp add: np_mean_def del: replicate.simps sum_list.Cons)
qed

lemma np_std_replicate: "np_std (replicate (Suc n) v) = 0"
proof -
  have "map (\<lambda>x. \<bar>x - np_mean (replicate (Suc n) v)\<bar>\<^sup>2) (replicate (Suc n) v) = replicate (Suc n) 0"
    unfolding np_mean_replicate by (simp add: map_replicate)
  then show ?thesis
    unfolding np_std_def by (simp only: np_mean_replicate real_sqrt_zero)
qed

lemma summary_statistics_replicate:
  assumes "summary_statistics (replicate (Suc n) (Num v)) = Inr s"
  shows "mean s = v \<and> std s = 0"
proof -
  have "summary_statistics (replicate (Suc n) (Num v)) =
      Inr \<lparr> mean = np_mean (replicate (Suc n) v), std = np_std (replicate (Suc n) v),
            min_stat = fold min (replicate n v) v, max_stat = fold max (replicate n v) v,
            percentile_25 = np_percentile (replicate (Suc n) v) 25,
            percentile_75 = np_percentile (replicate (Suc n) v) 75 \<rparr>"
    unfolding summary_statistics_def numbers_replicate by simp
  with assms show ?thesis
    by (simp only: np_mean_replicate np_std_replicate) auto
qed

lemma map_of_append_value:
  "map_of (append_value acc kv) k =
     (if k = fst kv
      then Some ((case map_of acc k of None \<Rightarrow> [] | Some vs \<Rightarrow> vs) @ [snd kv])
      else map_of acc k)"
proof (cases "map_of acc (fst kv)")
  case None
  then show ?thesis
    by (auto simp: append_value_def map_add_def split: option.splits)
next
  case (Some vs)
  then show ?thesis
    by (simp add: append_value_def update_conv')
qed

lemma map_of_foldl_append_value:
  assumes "distinct (map fst fs)"
  shows "map_of (foldl append_value acc fs) k =
     (case map_of fs k of
        None \<Rightarrow> map_of acc k
      | Some v \<Rightarrow> Some ((case map_of acc k of None \<Rightarrow> [] | Some vs \<Rightarrow> vs) @ [v]))"
  using assms
proof (induction fs arbitrary: acc)
  case Nil
  then show ?case by simp
next
  case (Cons kv fs)
  obtain k1 v1 where kv: "kv = (k1, v1)" by (cases kv)
  from Cons.prems kv have fresh: "k1 \<notin> fst ` set fs" and rest: "distinct (map fst fs)" by auto
  from fresh have none: "map_of fs k1 = None" by (simp add: map_of_eq_None_iff)
  show ?case
    using Cons.IH [OF rest, of "append_value acc kv"] none
    by (auto simp: kv map_of_append_value split: option.splits)
qed

text \<open>The values collected for a feature that every session reports as the same number.\<close>

lemma collect_sessions_constant_column:
  assumes "collect_sessions clk i sessions acc = Inr cols"
    and "\<forall>j < length sessions. \<forall>fs. extract_features (clk (i + j)) (sessions ! j) = Inr fs \<longrightarrow>
           map_of fs k = Some (Num v)"
  shows "map_of cols k =
     (if sessions = [] then map_of acc k
      else Some ((case map_of acc k of None \<Rightarrow> [] | Some vs \<Rightarrow> vs) @
                 replicate (length sessions) (Num v)))"
  using assms
proof (induction sessions arbitrary: i acc)
  case Nil
  then show ?case by simp
next
  case (Cons session rest)
  from Cons.prems(1) obtain fs where fs: "extract_features (clk i) session = Inr fs"
    and more: "collect_sessions clk (Suc i) rest (foldl append_value acc fs) = Inr cols"
    by (auto split: sum.splits)
  from Cons.prems(2) [rule_format, of 0 fs] fs have here: "map_of fs k = Some (Num v)"
    by simp
  have later: "\<forall>j < length rest. \<forall>fs. extract_features (clk (Suc i + j)) (rest ! j) = Inr fs \<longrightarrow>
           map_of fs k = Some (Num v)"
    using Cons.prems(2) by (auto dest: spec [of _ "Suc _"])
  have step: "map_of (foldl append_value acc fs) k =
      Some ((case map_of acc k of None \<Rightarrow> [] | Some vs \<Rightarrow> vs) @ [Num v])"
    using map_of_foldl_append_value [OF extract_features_distinct [OF fs], of acc k] here
    by simp
  show ?case
    using Cons.IH [OF more later] step
    by (simp add: replicate_append_same [symmetric] del: replicate.simps)
       (simp add: replicate_app_Cons_same)
qed

lemma compute_measures_lookup:
  assumes "compute_measures cols = Inr bf" and "map_of cols k = Some vals"
  shows "\<exists>s. summary_statistics vals = Inr s \<and> map_of bf k = Some s"
  using assms
proof (induction cols arbitrary: bf)
  case Nil
  then show ?case by simp
next
  case (Cons entry cols)
  obtain k1 vs1 where entry: "entry = (k1, vs1)" by (cases entry)
  from Cons.prems(1) obtain s1 rest' where s1: "summary_statistics vs1 = Inr s1"
    and rest': "compute_measures cols = Inr rest'" and bf: "bf = (k1, s1) # rest'"
    by (auto simp: entry split: sum.splits)
  show ?case
  proof (cases "k = k1")
    case True
    with Cons.prems(2) have "vals = vs1" by (simp add: entry)
    with True s1 bf show ?thesis by simp
  next
    case False
    with Cons.prems(2) have "map_of cols k = Some vals" by (simp add: entry)
    from Cons.IH [OF rest' this] False bf show ?thesis by simp
  qed
qed

lemma build_user_profile_constant_feature:
  assumes b: "build_user_profile clk self uid sessions = Inr (p, self')"
    and ne: "sessions \<noteq> []"
    and same: "\<forall>j < length sessions. \<forall>fs. extract_features (clk j) (sessions ! j) = Inr fs \<longrightarrow>
           map_of fs k = Some (Num v)"
  shows "\<exists>b. map_of (baseline_features p) k = Some b \<and> mean b = v \<and> std b = 0"
proof -
  from b obtain cols bf where cols: "collect_sessions clk 0 sessions [] = Inr cols"
    and bf: "compute_measures cols = Inr bf" and p: "baseline_features p = bf"
    by (auto simp: build_user_profile_def bind_err_eq_Inr Let_def)
  from collect_sessions_constant_column [OF cols, of k v] same ne
  have "map_of cols k = Some (replicate (length sessions) (Num v))"
    by simp
  from compute_measures_lookup [OF bf this] obtain s
    where s: "summary_statistics (replicate (length sessions) (Num v)) = Inr s"
      and look: "map_of bf k = Some s"
    by blast
  from ne obtain n where "length sessions = Suc n" by (cases sessions) auto
  with s summary_statistics_replicate [of n v s] have "mean s = v \<and> std s = 0" by simp
  with look p show ?thesis by simp
qed

lemma calculate_risk_score_errors:
  "calculate_risk_score now self uid obs = Inl e \<Longrightarrow> e = AttributeError \<or> e = TypeError"
proof (cases "user_profiles self uid")
  case None
  then show "calculate_risk_score now self uid obs = Inl e \<Longrightarrow> e = AttributeError \<or> e = TypeError"
    by (simp add: calculate_risk_score_unknown)
next
  case (Some p)
  assume "calculate_risk_score now self uid obs = Inl e"
  then show "e = AttributeError \<or> e = TypeError"
    using extract_features_raises [of now obs]
    by (auto simp: calculate_risk_score_known [OF Some] split: sum.splits if_splits)
qed

text \<open>
  C5. \<open>calculate_risk_score\<close> never raises \<open>ZeroDivisionError\<close>: the z-score of a number is
  always defined, its divisor being the baseline's std floored at 1e-6. In a profile built
  from a non-empty history in which every session gives a feature the same number \<open>v\<close>,
  that feature has std 0, and a current value \<open>x\<close> has the z-score \<open>|x - v| / 1e-6\<close>.
\<close>

theorem std_floor_no_division_error:
  "calculate_risk_score now self uid obs \<noteq> Inl ZeroDivisionError \<and>
   z_score (Num x) b = Inr (\<bar>x - mean b\<bar> / max (std b) 0.000001) \<and>
   (\<forall>p self1. build_user_profile clk self0 uid sessions = Inr (p, self1) \<and> sessions \<noteq> [] \<and>
        (\<forall>j < length sessions. \<forall>fs. extract_features (clk j) (sessions ! j) = Inr fs \<longrightarrow>
           map_of fs k = Some (Num v)) \<longrightarrow>
      (\<exists>s. map_of (baseline_features p) k = Some s \<and> std s = 0 \<and>
           z_score (Num x) s = Inr (\<bar>x - v\<bar> * 1000000)))"
proof -
  have a: "calculate_risk_score now self uid obs \<noteq> Inl ZeroDivisionError"
    using calculate_risk_score_errors [of now self uid obs ZeroDivisionError] by auto
  have b: "z_score (Num x) b = Inr (\<bar>x - mean b\<bar> / max (std b) 0.000001)"
    by (rule z_score_Num)
  have c: "\<forall>p self1. build_user_profile clk self0 uid sessions = Inr (p, self1) \<and> sessions \<noteq> [] \<and>
        (\<forall>j < length sessions. \<forall>fs. extract_features (clk j) (sessions ! j) = Inr fs \<longrightarrow>
           map_of fs k = Some (Num v)) \<longrightarrow>
      (\<exists>s. map_of (baseline_features p) k = Some s \<and> std s = 0 \<and>
           z_score (Num x) s = Inr (\<bar>x - v\<bar> * 1000000))"
  proof (intro allI impI)
    fix p self1
    assume h: "build_user_profile clk self0 uid sessions = Inr (p, self1) \<and> sessions \<noteq> [] \<and>
        (\<forall>j < length sessions. \<forall>fs. extract_features (clk j) (sessions ! j) = Inr fs \<longrightarrow>
           map_of fs k = Some (Num v))"
    then have "build_user_profile clk self0 uid sessions = Inr (p, self1)" "sessions \<noteq> []"
      "\<forall>j < length sessions. \<forall>fs. extract_features (clk j) (sessions ! j) = Inr fs \<longrightarrow>
           map_of fs k = Some (Num v)"
      by blast+
    from build_user_profile_constant_feature [OF this] obtain s
      where "map_of (baseline_features p) k = Some s" "mean s = v" "std s = 0"
      by blast
    then show "\<exists>s. map_of (baseline_features p) k = Some s \<and> std s = 0 \<and>
           z_score (Num x) s = Inr (\<bar>x - v\<bar> * 1000000)"
      by (simp add: z_score_Num)
  qed
  from a b c show ?thesis by (intro conjI)
qed

theorem std_floor_no_division_error_witness:
  "build_user_profile at_noon BehavioralAuthModel_init ''user_001'' [empty_session] =
     Inr (quiet_profile, quiet_state) \<and>
   length [empty_session] = 1 \<and>
   extract_features (at_noon 0) ([empty_session] ! 0) = Inr default_features \<and>
   map_of default_features ''panic_gesture_triggered'' = Some (Num 0) \<and>
   map_of (baseline_features quiet_profile) ''panic_gesture_triggered'' = Some (constant_stats 0) \<and>
   std (constant_stats 0) = 0 \<and>
   z_score (Num 1) (constant_stats 0) = Inr 1000000 \<and>
   calculate_risk_score noon quiet_state ''user_001'' panic_session =
     Inr (Tuple 1 [''panic_gesture_triggered: 1000000.00 std devs'', ''Panic gesture detected''])"
  using std_floor_no_division_error [where now = noon and self = quiet_state
      and uid = "''user_001''" and obs = panic_session and x = 1 and b = "constant_stats 0"
      and clk = at_noon and ?self0.0 = BehavioralAuthModel_init and sessions = "[empty_session]"
      and k = "''panic_gesture_triggered''" and v = 0]
    build_quiet_profile score_quiet_panic extract_empty_session
  by (simp add: at_noon_def quiet_baseline constant_stats_def z_score_def py_div_def
      default_features_def)

section \<open>Order of the risk factors\<close>

lemma rule_factors_subseq: "subseq (rule_factors fs) fixed_rule_factors"
  by (simp add: rule_factors_def fixed_rule_factors_def)

text \<open>
  C9. For a known identity, the factor list returned by \<open>calculate_risk_score\<close> is the
  list of the baseline-deviation factors, one for each feature whose z-score exceeds 2,
  in the order in which \<open>extract_features\<close> inserts the features, followed by the
  triggered ones of the four fixed rule factors in the order panic gesture, direct
  access, unfamiliar location, biometric mismatch.
\<close>

theorem risk_factor_order:
  "\<forall>p r. user_profiles self uid = Some p \<and> calculate_risk_score now self uid obs = Inr r \<longrightarrow>
     (\<exists>fs score. extract_features now obs = Inr fs \<and> map fst fs = feature_order \<and>
        r = Tuple score (concat (map (factor_of (baseline_features p)) fs) @ rule_factors fs) \<and>
        subseq (rule_factors fs) fixed_rule_factors)"
proof (intro allI impI)
  fix p r
  assume h: "user_profiles self uid = Some p \<and> calculate_risk_score now self uid obs = Inr r"
  then have p: "user_profiles self uid = Some p" and r: "calculate_risk_score now self uid obs = Inr r"
    by simp_all
  from r obtain fs where fs: "extract_features now obs = Inr fs"
    by (cases "extract_features now obs") (simp_all add: calculate_risk_score_known [OF p])
  from r have "\<exists>score. r = Tuple score (concat (map (factor_of (baseline_features p)) fs) @ rule_factors fs)"
    by (auto simp: calculate_risk_score_known [OF p] fs split: if_splits)
  with fs extract_features_order [OF fs] rule_factors_subseq [of fs]
  show "\<exists>fs score. extract_features now obs = Inr fs \<and> map fst fs = feature_order \<and>
        r = Tuple score (concat (map (factor_of (baseline_features p)) fs) @ rule_factors fs) \<and>
        subseq (rule_factors fs) fixed_rule_factors"
    by blast
qed

theorem risk_factor_order_witness:
  "user_profiles quiet_state ''user_001'' = Some quiet_profile \<and>
   extract_features noon panic_abroad_session =
     Inr (set_feature ''location_familiarity'' (Num 0.1)
           (set_feature ''panic_gesture_triggered'' (Num 1) default_features)) \<and>
   calculate_risk_score noon quiet_state ''user_001'' panic_abroad_session =
     Inr (Tuple 1 [''location_familiarity: 900000.00 std devs'',
                   ''panic_gesture_triggered: 1000000.00 std devs'',
                   ''Panic gesture detected'', ''Unfamiliar location''])"
  using risk_factor_order [where self = quiet_state and uid = "''user_001''" and now = noon
      and obs = panic_abroad_session]
    known_quiet extract_panic_abroad_session score_quiet_panic_abroad
  by simp

section \<open>Changing one feature\<close>

lemma map_of_set_feature:
  "map_of (set_feature k v fs) k' =
     (if k' = k then (case map_of fs k of None \<Rightarrow> None | Some _ \<Rightarrow> Some v) else map_of fs k')"
  by (induction fs) (auto simp: set_feature_def)

lemma features_get_set_feature_other:
  "k' \<noteq> k \<Longrightarrow> features_get (set_feature k v fs) k' dflt = features_get fs k' dflt"
  by (simp add: features_get_def map_of_set_feature)

lemma features_get_set_feature_same:
  "map_of fs k = Some v0 \<Longrightarrow> features_get (set_feature k v fs) k dflt = v"
  by (simp add: features_get_def map_of_set_feature)

lemma scorable_set_feature:
  "list_all (scorable bf) fs \<Longrightarrow> is_num v \<Longrightarrow> list_all (scorable bf) (set_feature k v fs)"
  by (induction fs) (auto simp: set_feature_def scorable_def)

lemma sum_set_feature:
  fixes g :: "string \<times> pyval \<Rightarrow> real"
  assumes "distinct (map fst fs)" and "map_of fs k = Some v0"
  shows "sum_list (map g (set_feature k v fs)) = sum_list (map g fs) - g (k, v0) + g (k, v)"
  using assms
proof (induction fs)
  case Nil
  then show ?case by simp
next
  case (Cons kv fs)
  obtain k1 v1 where kv: "kv = (k1, v1)" by (cases kv)
  show ?case
  proof (cases "k1 = k")
    case True
    with Cons.prems kv have v1: "v1 = v0" by simp
    from Cons.prems kv True have "k \<notin> fst ` set fs" by simp
    then have "set_feature k v fs = fs"
      by (induction fs) (auto simp: set_feature_def)
    then show ?thesis
      using True kv v1 by (simp add: set_feature_def)
  next
    case False
    with Cons.prems kv have "distinct (map fst fs)" "map_of fs k = Some v0" by simp_all
    from Cons.IH [OF this] show ?thesis
      using False kv by (simp add: set_feature_def)
  qed
qed

lemma deviation_of_nonneg: "0 \<le> deviation_of bf kv"
  by (auto simp: deviation_of_def split: option.splits sum.splits)

lemma deviation_of_Num:
  "deviation_of bf (k, Num x) =
     (case map_of bf k of
        None \<Rightarrow> 0
      | Some b \<Rightarrow> (if 2 < \<bar>x - mean b\<bar> / max (std b) 0.000001
                   then \<bar>x - mean b\<bar> / max (std b) 0.000001 else 0))"
  by (simp add: deviation_of_def z_score_Num split: option.splits)

lemma deviation_of_mono:
  assumes "\<forall>b. map_of bf k = Some b \<longrightarrow> \<bar>x - mean b\<bar> \<le> \<bar>x' - mean b\<bar>"
  shows "deviation_of bf (k, Num x) \<le> deviation_of bf (k, Num x')"
proof (cases "map_of bf k")
  case None
  then show ?thesis by (simp add: deviation_of_Num)
next
  case (Some b)
  have pos: "0 < max (std b) 0.000001" by (simp add: max_def)
  from assms Some have "\<bar>x - mean b\<bar> \<le> \<bar>x' - mean b\<bar>" by simp
  then have "\<bar>x - mean b\<bar> / max (std b) 0.000001 \<le> \<bar>x' - mean b\<bar> / max (std b) 0.000001"
    using pos by (simp add: divide_right_mono)
  moreover have "0 \<le> \<bar>x' - mean b\<bar> / max (std b) 0.000001"
    using pos by simp
  ultimately show ?thesis
    using Some by (simp add: deviation_of_Num)
qed

lemma rules_set_feature:
  assumes "k \<notin> set rule_features"
  shows "rule_total (set_feature k v fs) = rule_total fs"
    and "rule_factors (set_feature k v fs) = rule_factors fs"
    and "comparable (set_feature k v fs) = comparable fs"
proof -
  have same: "features_get (set_feature k v fs) k' dflt = features_get fs k' dflt"
    if "k' \<in> set rule_features" for k' dflt
    using that assms by (intro features_get_set_feature_other) auto
  have rules: "panic_rule (set_feature k v fs) = panic_rule fs"
    "direct_rule (set_feature k v fs) = direct_rule fs"
    "location_rule (set_feature k v fs) = location_rule fs"
    "tremor_rule (set_feature k v fs) = tremor_rule fs"
    by (simp_all add: panic_rule_def direct_rule_def location_rule_def tremor_rule_def
        same rule_features_def)
  show "rule_total (set_feature k v fs) = rule_total fs"
    by (simp only: rule_total_def rules)
  show "rule_factors (set_feature k v fs) = rule_factors fs"
    by (simp only: rule_factors_def rules)
  show "comparable (set_feature k v fs) = comparable fs"
    by (simp add: comparable_def same rule_features_def)
qed

lemma comparable_set_feature:
  "comparable fs \<Longrightarrow> comparable (set_feature k (Num x) fs)"
  by (auto simp: comparable_def features_get_def map_of_set_feature is_num_def
      split: option.splits)

lemma set_feature_twice: "set_feature k v' (set_feature k v fs) = set_feature k v' fs"
  by (induction fs) (simp_all add: set_feature_def)

lemma default_entries:
  "map_of default_features ''login_frequency'' = Some (Num 0)"
  "map_of default_features ''direct_to_sensitive'' = Some (Num 0)"
  "map_of default_features ''location_familiarity'' = Some (Num 1)"
  "map_of default_features ''tremor_signature'' = Some (Num 1)"
  "map_of default_features ''panic_gesture_triggered'' = Some (Num 0)"
  by (simp_all add: default_features_def)

lemma rule_total_tremor:
  "rule_total (set_feature ''tremor_signature'' (Num x) default_features) =
     (if x < 0.7 then 4 else 0)"
  by (simp add: rule_total_def panic_rule_def direct_rule_def location_rule_def tremor_rule_def
      features_get_def map_of_set_feature default_entries py_eq_num_def py_lt_num_def)

section \<open>Monotonicity of the score\<close>

lemma risk_totals_returns:
  assumes "risk_totals p fs = Inr acc"
  shows "list_all (scorable (baseline_features p)) fs \<and> comparable fs \<and>
         snd acc = sum_list (map (deviation_of (baseline_features p)) fs) + rule_total fs \<and>
         fst acc = concat (map (factor_of (baseline_features p)) fs) @ rule_factors fs"
  using assms by (auto simp: risk_totals_closed_form split: if_splits)

text \<open>
  C7, as stated, fails for the features that the fixed rules read. The profile built from
  two sessions with tremor match scores 0.5 and 0.9 has the tremor mean 0.7 and std 0.2.
  A session with the score 0.65 lies 0.05 from the mean, triggers the biometric rule and
  scores 0.4; the same session with the score 0.9 lies 0.2 from the mean, triggers
  nothing and scores 0.05.
\<close>

theorem tremor_monotonicity_counterexample:
  "build_user_profile at_noon BehavioralAuthModel_init ''user_001''
     [tremor_session 0.5, tremor_session 0.9] = Inr (tremor_profile, tremor_state) \<and>
   map_of (baseline_features tremor_profile) ''tremor_signature'' =
     Some \<lparr> mean = 0.7, std = 0.2, min_stat = 0.5, max_stat = 0.9,
            percentile_25 = 0.6, percentile_75 = 0.8 \<rparr> \<and>
   extract_features noon (tremor_session 0.65) =
     Inr (set_feature ''tremor_signature'' (Num 0.65) default_features) \<and>
   extract_features noon (tremor_session 0.9) =
     Inr (set_feature ''tremor_signature'' (Num 0.9) default_features) \<and>
   \<bar>0.65 - 0.7\<bar> < \<bar>0.9 - (0.7::real)\<bar> \<and>
   calculate_risk_score noon tremor_state ''user_001'' (tremor_session 0.65) =
     Inr (Tuple 0.4 [''Biometric signature mismatch'']) \<and>
   calculate_risk_score noon tremor_state ''user_001'' (tremor_session 0.9) =
     Inr (Tuple 0.05 []) \<and>
   (0.05::real) < 0.4"
  using build_tremor_profile extract_tremor_session [of "0.65"] extract_tremor_session [of "0.9"]
    score_tremor_near score_tremor_far
  by (simp add: tremor_profile_def quiet_profile_def)

text \<open>
  C7, amended. For a known identity, replace the numeric current value of one feature by
  a value at least as far from the feature's baseline mean, all other features fixed. If
  the feature is not one of the four that the fixed rules read (panic_gesture_triggered,
  direct_to_sensitive, location_familiarity, tremor_signature), or if the change leaves
  the total boost of the fixed rules no smaller, the risk score never decreases: when the
  first session is scored, so is the second, with a score at least as high.
\<close>

theorem risk_score_monotone:
  assumes p: "user_profiles self uid = Some p"
    and e: "extract_features now obs = Inr fs"
    and e': "extract_features now' obs' = Inr (set_feature k (Num x') fs)"
    and kx: "map_of fs k = Some (Num x)"
    and keeps: "k \<notin> set rule_features \<or> rule_total fs \<le> rule_total (set_feature k (Num x') fs)"
    and far: "\<forall>b. map_of (baseline_features p) k = Some b \<longrightarrow> \<bar>x - mean b\<bar> \<le> \<bar>x' - mean b\<bar>"
    and r: "calculate_risk_score now self uid obs = Inr (Tuple s f)"
  shows "\<exists>s' f'. calculate_risk_score now' self uid obs' = Inr (Tuple s' f') \<and> s \<le> s'"
proof -
  let ?bf = "baseline_features p"
  let ?fs' = "set_feature k (Num x') fs"
  from r have ok: "list_all (scorable ?bf) fs" "comparable fs"
    and s: "s = normalize (sum_list (map (deviation_of ?bf) fs) + rule_total fs)"
    by (auto simp: calculate_risk_score_known [OF p] e split: if_splits)
  have ok': "list_all (scorable ?bf) ?fs'" "comparable ?fs'"
    using ok by (simp_all add: scorable_set_feature is_num_def comparable_set_feature)
  have rules: "rule_total fs \<le> rule_total ?fs'"
    using keeps rules_set_feature(1) [of k "Num x'" fs] by auto
  have sum: "sum_list (map (deviation_of ?bf) ?fs') =
      sum_list (map (deviation_of ?bf) fs) - deviation_of ?bf (k, Num x) + deviation_of ?bf (k, Num x')"
    by (rule sum_set_feature [OF extract_features_distinct [OF e] kx])
  have "sum_list (map (deviation_of ?bf) fs) + rule_total fs \<le>
      sum_list (map (deviation_of ?bf) ?fs') + rule_total ?fs'"
    using deviation_of_mono [OF far] rules by (simp add: sum)
  then have "s \<le> normalize (sum_list (map (deviation_of ?bf) ?fs') + rule_total ?fs')"
    unfolding s by (rule normalize_mono)
  moreover have "calculate_risk_score now' self uid obs' =
      Inr (Tuple (normalize (sum_list (map (deviation_of ?bf) ?fs') + rule_total ?fs'))
                 (concat (map (factor_of ?bf) ?fs') @ rule_factors ?fs'))"
    using ok' by (simp add: calculate_risk_score_known [OF p] e')
  ultimately show ?thesis by blast
qed

theorem risk_score_monotone_witness:
  "user_profiles quiet_state ''user_001'' = Some quiet_profile \<and>
   extract_features noon empty_session = Inr default_features \<and>
   extract_features noon busy_session =
     Inr (set_feature ''login_frequency'' (Num 3) default_features) \<and>
   map_of default_features ''login_frequency'' = Some (Num 0) \<and>
   ''login_frequency'' \<notin> set rule_features \<and>
   map_of (baseline_features quiet_profile) ''login_frequency'' = Some (constant_stats 0) \<and>
   \<bar>0 - mean (constant_stats 0)\<bar> \<le> \<bar>3 - mean (constant_stats 0)\<bar> \<and>
   calculate_risk_score noon quiet_state ''user_001'' empty_session = Inr (Tuple 0.05 []) \<and>
   calculate_risk_score noon quiet_state ''user_001'' busy_session =
     Inr (Tuple 1 [''login_frequency: 3000000.00 std devs'']) \<and>
   (0.05::real) \<le> 1 \<and>
   user_profiles tremor_state ''user_001'' = Some tremor_profile \<and>
   extract_features noon (tremor_session 0.5) =
     Inr (set_feature ''tremor_signature'' (Num 0.5)
           (set_feature ''tremor_signature'' (Num 0.65) default_features)) \<and>
   map_of (set_feature ''tremor_signature'' (Num 0.65) default_features) ''tremor_signature'' =
     Some (Num 0.65) \<and>
   rule_total (set_feature ''tremor_signature'' (Num 0.65) default_features) = 4 \<and>
   rule_total (set_feature ''tremor_signature'' (Num 0.5)
     (set_feature ''tremor_signature'' (Num 0.65) default_features)) = 4 \<and>
   \<bar>0.65 - 0.7\<bar> \<le> \<bar>0.5 - (0.7::real)\<bar> \<and>
   calculate_risk_score noon tremor_state ''user_001'' (tremor_session 0.65) =
     Inr (Tuple 0.4 [''Biometric signature mismatch'']) \<and>
   calculate_risk_score noon tremor_state ''user_001'' (tremor_session 0.5) =
     Inr (Tuple 0.4 [''Biometric signature mismatch''])"
  using risk_score_monotone [where self = quiet_state and uid = "''user_001''"
      and p = quiet_profile and now = noon and obs = empty_session and fs = default_features
      and now' = noon and obs' = busy_session and k = "''login_frequency''" and x' = 3
      and x = 0 and s = "0.05" and f = "[]"]
    risk_score_monotone [where self = tremor_state and uid = "''user_001''"
      and p = tremor_profile and now = noon and obs = "tremor_session 0.65"
      and fs = "set_feature ''tremor_signature'' (Num 0.65) default_features"
      and now' = noon and obs' = "tremor_session 0.5" and k = "''tremor_signature''"
      and x' = "0.5" and x = "0.65" and s = "0.4" and f = "[''Biometric signature mismatch'']"]
    known_quiet extract_empty_session extract_busy_session score_quiet_empty score_quiet_busy
    known_tremor extract_tremor_session [of "0.65"] extract_tremor_session [of "0.5"]
    score_tremor_near score_tremor_low
  by (simp add: rule_features_def quiet_baseline tremor_baseline constant_stats_def
      set_feature_twice map_of_set_feature default_entries rule_total_tremor)

section \<open>The panic rule\<close>

lemma well_formed_set_panic:
  assumes "well_formed_observation (Dict d)"
  shows "well_formed_observation (Dict (d(''panic_gesture'' \<mapsto> v)))"
  using assms by (simp add: well_formed_observation_def signal_groups_def group_ok_def)

lemma extract_features_set_panic:
  assumes "extract_features now (Dict d) = Inr fs0"
  shows "extract_features now (Dict (d(''panic_gesture'' \<mapsto> v))) =
           Inr (set_feature ''panic_gesture_triggered'' v fs0)"
proof -
  from assms have wf: "well_formed_observation (Dict d)"
    using extract_features_returns_iff [of now "Dict d"] by blast
  have fs0: "fs0 = projr (extract_features now (Dict d))"
    using assms by simp
  show ?thesis
    unfolding fs0 extract_features_well_formed [OF wf]
      extract_features_well_formed [OF well_formed_set_panic [OF wf]]
    by (simp add: set_feature_def group_of_def dict_get_def)
qed

lemma extract_features_panic_entry:
  assumes "extract_features now (Dict d) = Inr fs0"
  shows "map_of fs0 ''panic_gesture_triggered'' = Some (dict_get d ''panic_gesture'' (Num 0))"
proof -
  from assms have wf: "well_formed_observation (Dict d)"
    using extract_features_returns_iff [of now "Dict d"] by blast
  from assms [unfolded extract_features_well_formed [OF wf]] show ?thesis
    by auto
qed

text \<open>
  C6, as stated, fails. The profile built from one session without the panic flag has the
  panic feature at mean 0 and std 0. With every other feature at its baseline mean, the
  total deviation is 0 without the flag and 1000005 with it, not 5: the flag's own
  z-score 1000000 is added as well, and the score goes from 0.05 to 1.
\<close>

theorem panic_additivity_counterexample:
  "build_user_profile at_noon BehavioralAuthModel_init ''user_001'' [empty_session] =
     Inr (quiet_profile, quiet_state) \<and>
   extract_features noon empty_session = Inr default_features \<and>
   extract_features noon panic_session =
     Inr (set_feature ''panic_gesture_triggered'' (Num 1) default_features) \<and>
   risk_totals quiet_profile default_features = Inr ([], 0) \<and>
   risk_totals quiet_profile (set_feature ''panic_gesture_triggered'' (Num 1) default_features) =
     Inr ([''panic_gesture_triggered: 1000000.00 std devs'', ''Panic gesture detected''], 1000005) \<and>
   (1000005::real) \<noteq> 0 + 5 \<and>
   calculate_risk_score noon quiet_state ''user_001'' empty_session = Inr (Tuple 0.05 []) \<and>
   calculate_risk_score noon quiet_state ''user_001'' panic_session =
     Inr (Tuple 1 [''panic_gesture_triggered: 1000000.00 std devs'', ''Panic gesture detected''])"
  using build_quiet_profile extract_empty_session extract_panic_session totals_quiet_default
    totals_quiet_panic score_quiet_empty score_quiet_panic
  by simp

text \<open>
  C6, amended. Take a session whose panic flag is not 1 and sits at the baseline mean of
  the panic feature, and whose total deviation is \<open>total0\<close>. Setting the flag to 1, all
  other features unchanged, makes the total deviation \<open>total0 + 5 + z\<close>, where 5 is the
  weight of the panic rule and \<open>z\<close> is the flag's own z-score
  \<open>|1 - mean| / max(std, 1e-6)\<close> when that exceeds 2 and 0 otherwise (also 0 when the
  baseline has no panic feature). The total rises by exactly 5 only when \<open>z\<close> is 0. The
  score of a known identity is the normalised new total.
\<close>

theorem panic_rule_additivity:
  assumes e0: "extract_features now (Dict d) = Inr fs0"
    and t0: "risk_totals p fs0 = Inr (factors0, total0)"
    and x0: "dict_get d ''panic_gesture'' (Num 0) = Num x0"
    and off: "x0 \<noteq> 1"
    and at_mean: "\<forall>b. map_of (baseline_features p) ''panic_gesture_triggered'' = Some b \<longrightarrow> x0 = mean b"
  shows "\<exists>factors1.
           extract_features now (Dict (d(''panic_gesture'' \<mapsto> Num 1))) =
             Inr (set_feature ''panic_gesture_triggered'' (Num 1) fs0) \<and>
           risk_totals p (set_feature ''panic_gesture_triggered'' (Num 1) fs0) =
             Inr (factors1, total0 + 5 + panic_deviation p) \<and>
           (\<forall>self uid. user_profiles self uid = Some p \<longrightarrow>
              calculate_risk_score now self uid (Dict (d(''panic_gesture'' \<mapsto> Num 1))) =
                Inr (Tuple (normalize (total0 + 5 + panic_deviation p)) factors1)) \<and>
           panic_deviation p =
             (case map_of (baseline_features p) ''panic_gesture_triggered'' of
                None \<Rightarrow> 0
              | Some b \<Rightarrow> (if 2 < \<bar>1 - mean b\<bar> / max (std b) 0.000001
                           then \<bar>1 - mean b\<bar> / max (std b) 0.000001 else 0))"
proof -
  let ?bf = "baseline_features p"
  let ?k = "''panic_gesture_triggered''"
  let ?fs1 = "set_feature ?k (Num 1) fs0"
  have entry: "map_of fs0 ?k = Some (Num x0)"
    using extract_features_panic_entry [OF e0] x0 by simp
  from risk_totals_returns [OF t0]
  have ok: "list_all (scorable ?bf) fs0" and cmp: "comparable fs0"
    and total0: "total0 = sum_list (map (deviation_of ?bf) fs0) + rule_total fs0"
    by simp_all
  have ok1: "list_all (scorable ?bf) ?fs1"
    using ok by (simp add: scorable_set_feature is_num_def)
  have other: "features_get ?fs1 k' dflt = features_get fs0 k' dflt" if "k' \<noteq> ?k" for k' dflt
    using that by (rule features_get_set_feature_other)
  have cmp1: "comparable ?fs1"
    using cmp by (simp add: comparable_def other)
  have before: "\<not> panic_rule fs0"
    using entry off by (simp add: panic_rule_def features_get_def py_eq_num_def)
  have after: "panic_rule ?fs1"
    using features_get_set_feature_same [OF entry, of "Num 1" "Num 0"]
    by (simp add: panic_rule_def py_eq_num_def)
  have rest: "direct_rule ?fs1 = direct_rule fs0" "location_rule ?fs1 = location_rule fs0"
    "tremor_rule ?fs1 = tremor_rule fs0"
    by (simp_all add: direct_rule_def location_rule_def tremor_rule_def other)
  have rules: "rule_total ?fs1 = rule_total fs0 + 5"
    using before after by (simp add: rule_total_def rest)
  have quiet: "deviation_of ?bf (?k, Num x0) = 0"
    using at_mean by (simp add: deviation_of_Num split: option.splits)
  have sum: "sum_list (map (deviation_of ?bf) ?fs1) =
      sum_list (map (deviation_of ?bf) fs0) + panic_deviation p"
    using sum_set_feature [OF extract_features_distinct [OF e0] entry, of "deviation_of ?bf" "Num 1"]
    by (simp add: quiet panic_deviation_def)
  have "risk_totals p ?fs1 =
      Inr (concat (map (factor_of ?bf) ?fs1) @ rule_factors ?fs1, total0 + 5 + panic_deviation p)"
    using ok1 cmp1 by (simp add: risk_totals_closed_form sum rules total0)
  moreover note extract_features_set_panic [OF e0, of "Num 1"]
  ultimately have "extract_features now (Dict (d(''panic_gesture'' \<mapsto> Num 1))) = Inr ?fs1 \<and>
      risk_totals p ?fs1 =
        Inr (concat (map (factor_of ?bf) ?fs1) @ rule_factors ?fs1, total0 + 5 + panic_deviation p) \<and>
      (\<forall>self uid. user_profiles self uid = Some p \<longrightarrow>
         calculate_risk_score now self uid (Dict (d(''panic_gesture'' \<mapsto> Num 1))) =
           Inr (Tuple (normalize (total0 + 5 + panic_deviation p))
                      (concat (map (factor_of ?bf) ?fs1) @ rule_factors ?fs1)))"
    by (simp add: calculate_risk_score_def)
  moreover have "panic_deviation p =
             (case map_of ?bf ?k of
                None \<Rightarrow> 0
              | Some b \<Rightarrow> (if 2 < \<bar>1 - mean b\<bar> / max (std b) 0.000001
                           then \<bar>1 - mean b\<bar> / max (std b) 0.000001 else 0))"
    by (simp add: panic_deviation_def deviation_of_Num)
  ultimately show ?thesis by blast
qed

theorem panic_rule_additivity_witness:
  "extract_features noon (Dict Map.empty) = Inr default_features \<and>
   dict_get Map.empty ''panic_gesture'' (Num 0) = Num 0 \<and> (0::real) \<noteq> 1 \<and>
   risk_totals quiet_profile default_features = Inr ([], 0) \<and>
   map_of (baseline_features quiet_profile) ''panic_gesture_triggered'' = Some (constant_stats 0) \<and>
   mean (constant_stats 0) = 0 \<and>
   panic_deviation quiet_profile = 1000000 \<and>
   risk_totals quiet_profile (set_feature ''panic_gesture_triggered'' (Num 1) default_features) =
     Inr ([''panic_gesture_triggered: 1000000.00 std devs'', ''Panic gesture detected''], 0 + 5 + 1000000) \<and>
   risk_totals blank_profile default_features = Inr ([], 0) \<and>
   map_of (baseline_features blank_profile) ''panic_gesture_triggered'' = None \<and>
   panic_deviation blank_profile = 0 \<and>
   risk_totals blank_profile (set_feature ''panic_gesture_triggered'' (Num 1) default_features) =
     Inr ([''Panic gesture detected''], 0 + 5 + 0)"
  using panic_rule_additivity [where now = noon and d = Map.empty and ?fs0.0 = default_features
      and p = quiet_profile and ?factors0.0 = "[]" and ?total0.0 = 0 and ?x0.0 = 0]
    panic_rule_additivity [where now = noon and d = Map.empty and ?fs0.0 = default_features
      and p = blank_profile and ?factors0.0 = "[]" and ?total0.0 = 0 and ?x0.0 = 0]
    extract_empty_session totals_quiet_default totals_quiet_panic totals_blank_default
    totals_blank_panic
  by (simp add: empty_session_def dict_get_def quiet_profile_def blank_profile_def
      constant_stats_def panic_deviation_def deviation_of_def z_score_def py_div_def)

end
